theory Spec2Isabelle
  imports Complex_Main "HOL-Library.Word" "HOL-Library.Multiset"
begin

unbundle bit_operations_syntax

section \<open>The search tree of src/mcts/node.h and src/mcts/node.cc\<close>

text \<open>
  The model follows node.cc function by function. A failing \<^verbatim>\<open>assert\<close> is the
  error value \<open>AssertionFailure\<close>, the use of a null pointer is
  \<open>NullDereference\<close>; every function whose source can do either returns
  \<open>error + result\<close>.
\<close>

datatype error = AssertionFailure | NullDereference

subsection \<open>IEEE-754 single precision bit patterns\<close>

text \<open>
  \<^verbatim>\<open>Edge::SetP\<close> and \<^verbatim>\<open>Edge::GetP\<close> work on the bits of a \<^verbatim>\<open>float\<close>
  (\<^verbatim>\<open>memcpy\<close> to and from a 32-bit integer), so there a float is its bit pattern:
  bit 31 the sign, bits 30..23 the biased exponent, bits 22..0 the fraction.
  \<open>f32_value\<close> is the real number a finite pattern denotes; exponent 255 is an
  infinity (fraction 0) or a NaN. \<open>f32_le\<close> is the comparison \<^verbatim>\<open><=\<close> of C++:
  false when an operand is a NaN.
\<close>

definition f32_sign :: "32 word \<Rightarrow> bool" where
  "f32_sign w = (2 ^ 31 \<le> unat w)"

definition f32_exponent :: "32 word \<Rightarrow> nat" where
  "f32_exponent w = unat w div 2 ^ 23 mod 2 ^ 8"

definition f32_fraction :: "32 word \<Rightarrow> nat" where
  "f32_fraction w = unat w mod 2 ^ 23"

definition f32_magnitude :: "32 word \<Rightarrow> real" where
  "f32_magnitude w =
     (if f32_exponent w = 0 then real (f32_fraction w) * 2 / 2 ^ 150
      else real (2 ^ 23 + f32_fraction w) * 2 ^ f32_exponent w / 2 ^ 150)"

definition f32_value :: "32 word \<Rightarrow> real" where
  "f32_value w = (if f32_sign w then - f32_magnitude w else f32_magnitude w)"

definition f32_is_nan :: "32 word \<Rightarrow> bool" where
  "f32_is_nan w = (f32_exponent w = 255 \<and> f32_fraction w \<noteq> 0)"

definition f32_le :: "32 word \<Rightarrow> 32 word \<Rightarrow> bool" where
  "f32_le a b = (\<not> f32_is_nan a \<and> \<not> f32_is_nan b \<and> f32_value a \<le> f32_value b)"

subsection \<open>Edge and the 16-bit policy codec\<close>

text \<open>
  \<^verbatim>\<open>class Edge { Move move_; uint16_t p_ = 0; }\<close>. The move type belongs to the chess
  library and stays a type parameter.
\<close>

record 'mv Edge =
  edge_move :: 'mv
  edge_p :: "16 word"

text \<open>\<^verbatim>\<open>constexpr int32_t roundings = (1 << 11) - (3 << 28);\<close>\<close>

definition roundings :: "32 word" where
  "roundings = push_bit 11 1 - push_bit 28 3"

text \<open>
  The body of \<^verbatim>\<open>Edge::SetP\<close> after the assert:
  \<^verbatim>\<open>tmp += roundings; p_ = (tmp < 0) ? 0 : static_cast<uint16_t>(tmp >> 12);\<close>
  with \<open>tmp\<close> the bits of \<open>p\<close> as \<^verbatim>\<open>int32_t\<close>. The addition is the 32-bit
  two's complement one. Among the inputs the assert admits it overflows for the bits of
  \<open>-0.0\<close> only, where the wrapped sum is what the hardware computes.
\<close>

definition SetP_code :: "32 word \<Rightarrow> 16 word" where
  "SetP_code p =
     (let tmp = p + roundings
      in if sint tmp < 0 then 0 else ucast (signed_drop_bit 12 tmp))"

text \<open>\<^verbatim>\<open>void Edge::SetP(float p)\<close>, with \<^verbatim>\<open>assert(0.0f <= p && p <= 1.0f)\<close>;
  \<open>0x3F800000\<close> is \<open>1.0f\<close>.\<close>

definition Edge_SetP :: "'mv Edge \<Rightarrow> 32 word \<Rightarrow> error + 'mv Edge" where
  "Edge_SetP e p =
     (if \<not> (f32_le 0 p \<and> f32_le p 0x3F800000) then Inl AssertionFailure
      else Inr (e\<lparr>edge_p := SetP_code p\<rparr>))"

text \<open>\<^verbatim>\<open>float Edge::GetP() const\<close>:
  \<^verbatim>\<open>tmp = (static_cast<uint32_t>(p_) << 12) | (3 << 28)\<close>, returned as the float with
  these bits.\<close>

definition Edge_GetP :: "'mv Edge \<Rightarrow> 32 word" where
  "Edge_GetP e = (push_bit 12 (ucast (edge_p e)) OR push_bit 28 3)"

text \<open>Numerator of \<open>f32_value\<close> over \<open>2 ^ 150\<close> for a pattern with the sign bit
  clear, as a function of the pattern read as a number.\<close>

definition mag_num :: "nat \<Rightarrow> nat" where
  "mag_num x =
     ((if x div 2 ^ 23 = 0 then 0 else 2 ^ 23) + x mod 2 ^ 23) * 2 ^ (max (x div 2 ^ 23) 1)"

subsection \<open>Floating-point statistics\<close>

text \<open>
  The statistics \<^verbatim>\<open>wl_\<close> (a \<^verbatim>\<open>double\<close>), \<^verbatim>\<open>d_\<close> and \<^verbatim>\<open>m_\<close> (\<^verbatim>\<open>float\<close>) are
  values of type \<open>fp\<close>: a real number, an infinity or NaN. The four arithmetic
  operations follow IEEE-754 on the special cases (\<open>x / 0\<close>, \<open>\<infinity> - \<infinity>\<close>, \<open>0 * \<infinity>\<close>, NaN
  operands) and are exact on finite operands: rounding, overflow to infinity and the sign
  of zero are not modelled, and the conversions between \<^verbatim>\<open>float\<close> and \<^verbatim>\<open>double\<close>
  are identities. Every divisor in node.cc is converted from an unsigned integer, so a
  zero divisor is \<open>+0\<close>.
\<close>

datatype fp = Finite real | PosInf | NegInf | NaN

instantiation fp :: "{zero, one, uminus, plus, minus, times, inverse}"
begin

definition zero_fp :: fp where
  "zero_fp = Finite 0"

definition one_fp :: fp where
  "one_fp = Finite 1"

definition uminus_fp :: "fp \<Rightarrow> fp" where
  "uminus_fp a = (case a of Finite x \<Rightarrow> Finite (- x) | PosInf \<Rightarrow> NegInf | NegInf \<Rightarrow> PosInf
                  | NaN \<Rightarrow> NaN)"

definition plus_fp :: "fp \<Rightarrow> fp \<Rightarrow> fp" where
  "plus_fp a b =
     (case (a, b) of
        (NaN, _) \<Rightarrow> NaN
      | (_, NaN) \<Rightarrow> NaN
      | (Finite x, Finite y) \<Rightarrow> Finite (x + y)
      | (Finite x, _) \<Rightarrow> b
      | (_, Finite y) \<Rightarrow> a
      | (_, _) \<Rightarrow> if a = b then a else NaN)"

definition minus_fp :: "fp \<Rightarrow> fp \<Rightarrow> fp" where
  "minus_fp a b = a + (- b)"

definition times_fp :: "fp \<Rightarrow> fp \<Rightarrow> fp" where
  "times_fp a b =
     (case (a, b) of
        (NaN, _) \<Rightarrow> NaN
      | (_, NaN) \<Rightarrow> NaN
      | (Finite x, Finite y) \<Rightarrow> Finite (x * y)
      | (Finite x, _) \<Rightarrow> if x = 0 then NaN else if 0 < x then b else - b
      | (_, Finite y) \<Rightarrow> if y = 0 then NaN else if 0 < y then a else - a
      | (_, _) \<Rightarrow> if a = b then PosInf else NegInf)"

definition divide_fp :: "fp \<Rightarrow> fp \<Rightarrow> fp" where
  "divide_fp a b =
     (case (a, b) of
        (NaN, _) \<Rightarrow> NaN
      | (_, NaN) \<Rightarrow> NaN
      | (Finite x, Finite y) \<Rightarrow>
          if y \<noteq> 0 then Finite (x / y)
          else if x = 0 then NaN else if 0 < x then PosInf else NegInf
      | (Finite x, _) \<Rightarrow> Finite 0
      | (_, Finite y) \<Rightarrow> if 0 \<le> y then a else - a
      | (_, _) \<Rightarrow> NaN)"

definition inverse_fp :: "fp \<Rightarrow> fp" where
  "inverse_fp a = divide (Finite 1) a"

instance ..

end

text \<open>Conversion of a \<^verbatim>\<open>uint32_t\<close> and of an \<^verbatim>\<open>int\<close> (32 bits, two's complement) to
  floating point.\<close>

definition fp_of_uint32 :: "32 word \<Rightarrow> fp" where
  "fp_of_uint32 w = Finite (real (unat w))"

definition fp_of_int :: "32 word \<Rightarrow> fp" where
  "fp_of_int w = Finite (real_of_int (sint w))"

subsection \<open>Node and LowNode\<close>

text \<open>
  \<^verbatim>\<open>enum class Terminal\<close>. node.cc names the value \<^verbatim>\<open>Terminal::TwoFold\<close>
  (\<^verbatim>\<open>MakeTerminal\<close>, \<^verbatim>\<open>IsTwoFoldTerminal\<close>) next to the three values of the
  declaration in node.h, so the type has the four values node.cc is compiled against.
  \<^verbatim>\<open>Node::Terminal\<close> is a typedef of \<^verbatim>\<open>LowNode::Terminal\<close>.
\<close>

datatype Terminal = NonTerminal | EndOfGame | Tablebase | TwoFold

text \<open>
  Modelled from the spec: \<^verbatim>\<open>GameResult\<close> of chess/position.h, which is not among the
  sources: ``three-valued \<open>{BLACK_WON, DRAW, WHITE_WON}\<close> with negation swapping winners and
  fixing DRAW''.
\<close>

datatype GameResult = BLACK_WON | DRAW | WHITE_WON

fun GameResult_neg :: "GameResult \<Rightarrow> GameResult" where
  "GameResult_neg BLACK_WON = WHITE_WON"
| "GameResult_neg DRAW = DRAW"
| "GameResult_neg WHITE_WON = BLACK_WON"

text \<open>
  The fields of a \<^verbatim>\<open>Node\<close> other than its pointers. \<^verbatim>\<open>index_\<close> (a
  \<^verbatim>\<open>uint16_t\<close>) is only compared and copied, never computed with, and is a natural
  number.
\<close>

record Node_data =
  node_wl :: fp
  node_d :: fp
  node_m :: fp
  node_n :: "32 word"
  node_n_in_flight :: "32 word"
  node_index :: nat
  node_terminal_type :: Terminal
  node_lower_bound :: GameResult
  node_upper_bound :: GameResult

text \<open>
  The fields of a \<^verbatim>\<open>LowNode\<close> other than \<^verbatim>\<open>child_\<close>. \<^verbatim>\<open>edges_\<close> is \<open>None\<close>
  for the null pointer and otherwise the array; \<^verbatim>\<open>num_edges_\<close> is its length (every
  constructor and \<^verbatim>\<open>SetNNEval\<close> allocate exactly \<^verbatim>\<open>num_edges_\<close> edges).
\<close>

record 'mv LowNode_data =
  low_wl :: fp
  low_d :: fp
  low_m :: fp
  low_n :: "32 word"
  low_n_in_flight :: "32 word"
  low_edges :: "'mv Edge list option"
  low_num_parents :: "8 word"
  low_terminal_type :: Terminal
  low_lower_bound :: GameResult
  low_upper_bound :: GameResult
  low_is_transposition :: bool

text \<open>
  Ownership is containment. A \<^verbatim>\<open>std::unique_ptr<Node>\<close> is the chain of the node it
  points to and that node's siblings (\<^verbatim>\<open>sibling_\<close>), a list; the null pointer is the
  empty list. A Node holds its LowNode (\<^verbatim>\<open>low_node_\<close>, \<open>None\<close> when null). Several
  Nodes sharing one LowNode through the \<^verbatim>\<open>shared_ptr\<close> (a transposition) are not
  represented: each Node has its own. \<^verbatim>\<open>parent_\<close> is the position in the tree.
\<close>

datatype 'mv Node = Node (node_data: Node_data) (low_node: "'mv LowNode option")
  and 'mv LowNode = LowNode (low_data: "'mv LowNode_data") (child: "'mv Node list")

text \<open>\<^verbatim>\<open>Node(LowNode* parent, uint16_t index)\<close> with the default member
  initialisers.\<close>

definition Node_init :: "nat \<Rightarrow> Node_data" where
  "Node_init index =
     \<lparr>node_wl = 0, node_d = 0, node_m = 0, node_n = 0, node_n_in_flight = 0,
      node_index = index, node_terminal_type = NonTerminal,
      node_lower_bound = BLACK_WON, node_upper_bound = WHITE_WON\<rparr>"

definition Node_IsTerminal :: "Node_data \<Rightarrow> bool" where
  "Node_IsTerminal nd = (node_terminal_type nd \<noteq> NonTerminal)"

definition LowNode_IsTerminal :: "'mv LowNode_data \<Rightarrow> bool" where
  "LowNode_IsTerminal ld = (low_terminal_type ld \<noteq> NonTerminal)"

definition LowNode_GetNumEdges :: "'mv LowNode_data \<Rightarrow> nat" where
  "LowNode_GetNumEdges ld = (case low_edges ld of None \<Rightarrow> 0 | Some es \<Rightarrow> length es)"

definition Node_GetNumEdges :: "'mv Node \<Rightarrow> nat" where
  "Node_GetNumEdges nd =
     (case low_node nd of None \<Rightarrow> 0 | Some l \<Rightarrow> LowNode_GetNumEdges (low_data l))"

text \<open>\<^verbatim>\<open>Node::GetChild\<close>: the first child, as the chain it heads.\<close>

definition Node_GetChild :: "'mv Node \<Rightarrow> 'mv Node list" where
  "Node_GetChild nd = (case low_node nd of None \<Rightarrow> [] | Some l \<Rightarrow> child l)"

subsection \<open>Score updates\<close>

text \<open>\<^verbatim>\<open>bool Node::TryStartScoreUpdate()\<close>\<close>

definition Node_TryStartScoreUpdate :: "Node_data \<Rightarrow> bool \<times> Node_data" where
  "Node_TryStartScoreUpdate nd =
     (if node_n nd = 0 \<and> 0 < node_n_in_flight nd then (False, nd)
      else (True, nd\<lparr>node_n_in_flight := node_n_in_flight nd + 1\<rparr>))"

text \<open>
  \<^verbatim>\<open>void Node::FinalizeScoreUpdate(float v, float d, float m, int multivisit)\<close>. In
  \<^verbatim>\<open>multivisit * (v - wl_) / (n_ + multivisit)\<close> the sum \<^verbatim>\<open>n_ + multivisit\<close> is
  computed in \<^verbatim>\<open>uint32_t\<close> and then converted; \<^verbatim>\<open>multivisit\<close> is converted as a
  signed integer. The statements run in the order of the source, the assert after the
  statistics.
\<close>

definition Node_FinalizeScoreUpdate ::
  "Node_data \<Rightarrow> fp \<Rightarrow> fp \<Rightarrow> fp \<Rightarrow> 32 word \<Rightarrow> error + Node_data" where
  "Node_FinalizeScoreUpdate nd v d m multivisit =
     (let nd1 = nd\<lparr>node_wl := node_wl nd
                   + fp_of_int multivisit * (v - node_wl nd) / fp_of_uint32 (node_n nd + multivisit)\<rparr>;
          nd2 = nd1\<lparr>node_d := node_d nd1
                   + fp_of_int multivisit * (d - node_d nd1) / fp_of_uint32 (node_n nd1 + multivisit)\<rparr>;
          nd3 = nd2\<lparr>node_m := node_m nd2
                   + fp_of_int multivisit * (m - node_m nd2) / fp_of_uint32 (node_n nd2 + multivisit)\<rparr>;
          nd4 = nd3\<lparr>node_n := node_n nd3 + multivisit\<rparr>
      in if \<not> multivisit \<le> node_n_in_flight nd4 then Inl AssertionFailure
         else Inr (nd4\<lparr>node_n_in_flight := node_n_in_flight nd4 - multivisit\<rparr>))"


subsection \<open>Terminal transitions\<close>

definition LowNode_SetBounds ::
  "'mv LowNode_data \<Rightarrow> GameResult \<Rightarrow> GameResult \<Rightarrow> 'mv LowNode_data" where
  "LowNode_SetBounds ld lower upper = ld\<lparr>low_lower_bound := lower, low_upper_bound := upper\<rparr>"


text \<open>\<^verbatim>\<open>void LowNode::MakeTerminal(GameResult result, float plies_left, Terminal type)\<close>\<close>

definition LowNode_MakeTerminal ::
  "'mv LowNode_data \<Rightarrow> GameResult \<Rightarrow> fp \<Rightarrow> Terminal \<Rightarrow> 'mv LowNode_data" where
  "LowNode_MakeTerminal ld result plies_left type =
     (let ld1 = (if type \<noteq> TwoFold then LowNode_SetBounds ld result result else ld);
          ld2 = ld1\<lparr>low_terminal_type := type\<rparr>;
          ld3 = ld2\<lparr>low_m := plies_left\<rparr>
      in case result of
           DRAW \<Rightarrow> ld3\<lparr>low_wl := 0, low_d := 1\<rparr>
         | WHITE_WON \<Rightarrow> ld3\<lparr>low_wl := 1, low_d := 0\<rparr>
         | BLACK_WON \<Rightarrow> ld3\<lparr>low_wl := - 1, low_d := 0\<rparr>)"


text \<open>The constructors \<^verbatim>\<open>LowNode()\<close> (\<open>es = None\<close>) and
  \<^verbatim>\<open>LowNode(const MoveList& moves)\<close> (\<open>es\<close> the array \<^verbatim>\<open>Edge::FromMovelist\<close>
  builds), with the default member initialisers.\<close>

definition LowNode_init :: "'mv Edge list option \<Rightarrow> 'mv LowNode_data" where
  "LowNode_init es =
     \<lparr>low_wl = 0, low_d = 0, low_m = 0, low_n = 0, low_n_in_flight = 0, low_edges = es,
      low_num_parents = 0, low_terminal_type = NonTerminal, low_lower_bound = BLACK_WON,
      low_upper_bound = WHITE_WON, low_is_transposition = False\<rparr>"

subsection \<open>Iterating over edges and children\<close>

text \<open>
  A pointer into the child list of a LowNode is a position in the list: the Node pointer
  \<^verbatim>\<open>node_\<close> of an \<^verbatim>\<open>EdgeAndNode\<close> is \<open>Some j\<close> for the \<open>j\<close>-th child and \<open>None\<close>
  when null, and \<^verbatim>\<open>node_ptr_\<close>, which points at a \<^verbatim>\<open>unique_ptr\<close> slot of the chain, is
  the position of the node that slot holds (the length of the list for the final, null
  slot). The edge pointer \<^verbatim>\<open>edge_\<close> is \<^verbatim>\<open>current_idx_\<close>.
\<close>

record Edge_Iterator =
  it_current_idx :: nat
  it_node :: "nat option"
  it_node_ptr :: nat

text \<open>
  \<^verbatim>\<open>void Edge_Iterator::Actualize()\<close> on the child list \<open>cs\<close>, from the slot
  \<open>node_ptr\<close>: the \<^verbatim>\<open>while\<close> loop steps over the nodes whose index is below
  \<open>current_idx\<close>; the result is the new \<^verbatim>\<open>node_\<close> and \<^verbatim>\<open>node_ptr_\<close>.
\<close>

definition Actualize :: "'mv Node list \<Rightarrow> nat \<Rightarrow> nat \<Rightarrow> nat option \<times> nat" where
  "Actualize cs node_ptr current_idx =
     (let q = node_ptr
              + length (takeWhile (\<lambda>c. node_index (node_data c) < current_idx) (drop node_ptr cs))
      in if q < length cs \<and> node_index (node_data (cs ! q)) = current_idx then (Some q, Suc q)
         else (None, q))"

text \<open>
  The iterator states a range-based \<^verbatim>\<open>for\<close> over \<^verbatim>\<open>Edges()\<close> goes through, while
  the child list is \<open>cs\<close>: \<open>k\<close> edges remain, the next has index \<open>idx\<close>. The
  constructor and \<^verbatim>\<open>operator++\<close> call \<^verbatim>\<open>Actualize\<close> before each element;
  \<^verbatim>\<open>operator++\<close> ends the range when \<^verbatim>\<open>++current_idx_ == total_count_\<close>.
\<close>

fun Edges_iter :: "'mv Node list \<Rightarrow> nat \<Rightarrow> nat \<Rightarrow> nat \<Rightarrow> Edge_Iterator list" where
  "Edges_iter cs 0 idx node_ptr = []"
| "Edges_iter cs (Suc k) idx node_ptr =
     (let (nd, q) = Actualize cs node_ptr idx
      in \<lparr>it_current_idx = idx, it_node = nd, it_node_ptr = q\<rparr> # Edges_iter cs k (Suc idx) q)"

text \<open>\<^verbatim>\<open>Node::Edges()\<close>: empty without a LowNode or without edges, else over
  \<^verbatim>\<open>GetNumEdges()\<close> edges from \<^verbatim>\<open>low_node_->GetChild()\<close>.\<close>

definition Node_Edges :: "'mv Node \<Rightarrow> Edge_Iterator list" where
  "Node_Edges nd = Edges_iter (Node_GetChild nd) (Node_GetNumEdges nd) 0 0"

text \<open>The getters of \<^verbatim>\<open>EdgeAndNode\<close> that \<^verbatim>\<open>LowNode::MakeNotTerminal\<close> calls, on the
  child list \<open>cs\<close>.\<close>

definition EdgeAndNode_GetN :: "'mv Node list \<Rightarrow> Edge_Iterator \<Rightarrow> 32 word" where
  "EdgeAndNode_GetN cs it =
     (case it_node it of None \<Rightarrow> 0 | Some j \<Rightarrow> node_n (node_data (cs ! j)))"

definition EdgeAndNode_GetWL :: "'mv Node list \<Rightarrow> Edge_Iterator \<Rightarrow> fp \<Rightarrow> fp" where
  "EdgeAndNode_GetWL cs it default_wl =
     (case it_node it of
        None \<Rightarrow> default_wl
      | Some j \<Rightarrow> if 0 < node_n (node_data (cs ! j)) then node_wl (node_data (cs ! j))
                  else default_wl)"

definition EdgeAndNode_GetD :: "'mv Node list \<Rightarrow> Edge_Iterator \<Rightarrow> fp \<Rightarrow> fp" where
  "EdgeAndNode_GetD cs it default_d =
     (case it_node it of
        None \<Rightarrow> default_d
      | Some j \<Rightarrow> if 0 < node_n (node_data (cs ! j)) then node_d (node_data (cs ! j))
                  else default_d)"

definition EdgeAndNode_GetM :: "'mv Node list \<Rightarrow> Edge_Iterator \<Rightarrow> fp \<Rightarrow> fp" where
  "EdgeAndNode_GetM cs it default_m =
     (case it_node it of
        None \<Rightarrow> default_m
      | Some j \<Rightarrow> if 0 < node_n (node_data (cs ! j)) then node_m (node_data (cs ! j))
                  else default_m)"

text \<open>
  The body of the loop of \<^verbatim>\<open>LowNode::MakeNotTerminal\<close> for one element \<open>it\<close> of
  \<^verbatim>\<open>node->Edges()\<close>; \<^verbatim>\<open>n_ += n\<close> is the 32-bit sum and the products are
  \<^verbatim>\<open>child.GetWL(0.0f) * n\<close> with \<open>n\<close> converted from \<^verbatim>\<open>uint32_t\<close>.
\<close>

definition MakeNotTerminal_body ::
  "'mv Node list \<Rightarrow> Edge_Iterator \<Rightarrow> 'mv LowNode_data \<Rightarrow> 'mv LowNode_data" where
  "MakeNotTerminal_body cs it ld =
     (let n = EdgeAndNode_GetN cs it
      in if 0 < n then
           (let ld1 = ld\<lparr>low_n := low_n ld + n\<rparr>;
                ld2 = ld1\<lparr>low_wl := low_wl ld1 + EdgeAndNode_GetWL cs it 0 * fp_of_uint32 n\<rparr>;
                ld3 = ld2\<lparr>low_d := low_d ld2 + EdgeAndNode_GetD cs it 0 * fp_of_uint32 n\<rparr>
            in ld3\<lparr>low_m := low_m ld3 + EdgeAndNode_GetM cs it 0 * fp_of_uint32 n\<rparr>)
         else ld)"

text \<open>
  \<^verbatim>\<open>void LowNode::MakeNotTerminal(const Node* node)\<close> on the LowNode \<open>this\<close>. Of
  \<open>node\<close> it reads \<^verbatim>\<open>GetNumEdges()\<close> and \<^verbatim>\<open>Edges()\<close>, that is the edges and
  children of the LowNode \<open>node\<close> holds; the assignments before the loop change neither.
\<close>

definition LowNode_MakeNotTerminal :: "'mv LowNode \<Rightarrow> 'mv Node \<Rightarrow> error + 'mv LowNode" where
  "LowNode_MakeNotTerminal this node =
     (let ld = low_data this
      in if low_edges ld = None then Inl AssertionFailure
         else if \<not> LowNode_IsTerminal ld then Inr this
         else
           (let ld1 = ld\<lparr>low_terminal_type := NonTerminal, low_lower_bound := BLACK_WON,
                          low_upper_bound := WHITE_WON, low_n := 0, low_wl := 0, low_d := 0,
                          low_m := 0\<rparr>
            in if 0 < Node_GetNumEdges node then
                 (let ld2 = fold (MakeNotTerminal_body (Node_GetChild node)) (Node_Edges node) ld1;
                      ld3 = ld2\<lparr>low_wl := low_wl ld2 / fp_of_uint32 (low_n ld2)\<rparr>;
                      ld4 = ld3\<lparr>low_d := low_d ld3 / fp_of_uint32 (low_n ld3)\<rparr>;
                      ld5 = ld4\<lparr>low_m := low_m ld4 / fp_of_uint32 (low_n ld4)\<rparr>
                  in Inr (LowNode ld5 (child this)))
               else Inr (LowNode ld1 (child this))))"

text \<open>\<^verbatim>\<open>void Node::MakeNotTerminal(bool also_low_node)\<close>\<close>

definition Node_MakeNotTerminal :: "'mv Node \<Rightarrow> bool \<Rightarrow> error + 'mv Node" where
  "Node_MakeNotTerminal this also_low_node =
     (let nd = node_data this
      in if \<not> Node_IsTerminal nd
            \<and> (\<not> also_low_node
                \<or> (case low_node this of None \<Rightarrow> True
                    | Some l \<Rightarrow> \<not> LowNode_IsTerminal (low_data l)))
         then Inr this
         else
           (let nd1 = nd\<lparr>node_terminal_type := NonTerminal\<rparr>
            in case low_node this of
                 Some l \<Rightarrow>
                   (case (if also_low_node then LowNode_MakeNotTerminal l (Node nd1 (Some l))
                          else Inr l) of
                      Inl e \<Rightarrow> Inl e
                    | Inr l' \<Rightarrow>
                        Inr (Node (nd1\<lparr>node_lower_bound := GameResult_neg (low_upper_bound (low_data l')),
                                       node_upper_bound := GameResult_neg (low_lower_bound (low_data l')),
                                       node_n := low_n (low_data l'),
                                       node_wl := - low_wl (low_data l'),
                                       node_d := low_d (low_data l'),
                                       node_m := low_m (low_data l') + 1\<rparr>)
                                  (Some l')))
               | None \<Rightarrow>
                   Inr (Node (nd1\<lparr>node_lower_bound := BLACK_WON, node_upper_bound := WHITE_WON,
                                  node_n := 0, node_wl := 0, node_d := 0, node_m := 0\<rparr>)
                             None)))"

subsection \<open>VisitedNode_Iterator\<close>

text \<open>
  \<^verbatim>\<open>node_ptr_\<close> of a \<^verbatim>\<open>VisitedNode_Iterator\<close> is the chain from the node it points
  to, empty when null. \<open>VisitedNode_skip\<close> is the \<^verbatim>\<open>do ... while\<close> loop of
  \<^verbatim>\<open>operator++\<close> from the moment \<^verbatim>\<open>node_ptr_\<close> has been set to the sibling chain.
\<close>

fun VisitedNode_skip :: "'mv Node list \<Rightarrow> 'mv Node list" where
  "VisitedNode_skip [] = []"
| "VisitedNode_skip (c # cs) =
     (if node_n (node_data c) = 0 \<and> node_n_in_flight (node_data c) = 0 then []
      else if node_n (node_data c) = 0 then VisitedNode_skip cs
      else c # cs)"

text \<open>\<^verbatim>\<open>operator++\<close>; the source never calls it on the end iterator.\<close>

definition VisitedNode_increment :: "'mv Node list \<Rightarrow> 'mv Node list" where
  "VisitedNode_increment node_ptr = VisitedNode_skip (tl node_ptr)"

text \<open>The constructor \<^verbatim>\<open>VisitedNode_Iterator(parent_node, child_ptr)\<close>.\<close>

definition VisitedNode_begin :: "'mv Node list \<Rightarrow> 'mv Node list" where
  "VisitedNode_begin child_ptr =
     (if child_ptr \<noteq> [] \<and> node_n (node_data (hd child_ptr)) = 0
      then VisitedNode_increment child_ptr else child_ptr)"

text \<open>The nodes \<^verbatim>\<open>operator*\<close> returns in a range-based \<^verbatim>\<open>for\<close>, from the
  iterator at \<open>node_ptr\<close> to \<^verbatim>\<open>end()\<close>.\<close>

function VisitedNode_range :: "'mv Node list \<Rightarrow> 'mv Node list" where
  "VisitedNode_range [] = []"
| "VisitedNode_range (c # cs) = c # VisitedNode_range (VisitedNode_increment (c # cs))"
  by pat_completeness auto
termination
proof (relation "measure length")
  show "wf (measure length)" by simp
next
  fix c :: "'mv Node" and cs :: "'mv Node list"
  have "length (VisitedNode_skip xs) \<le> length xs" for xs :: "'mv Node list"
    by (induction xs) auto
  then show "(VisitedNode_increment (c # cs), c # cs) \<in> measure length"
    by (simp add: VisitedNode_increment_def less_Suc_eq_le)
qed

text \<open>\<^verbatim>\<open>Node::VisitedNodes()\<close>, as the list of nodes the range yields.\<close>

definition Node_VisitedNodes :: "'mv Node \<Rightarrow> 'mv Node list" where
  "Node_VisitedNodes parent = VisitedNode_range (VisitedNode_begin (Node_GetChild parent))"

subsection \<open>Sorting the edges\<close>



subsection \<open>Releasing children\<close>

text \<open>
  \<^verbatim>\<open>subtrees_to_gc_\<close> of the garbage collector \<^verbatim>\<open>gNodeGc\<close>: each entry is a
  \<^verbatim>\<open>unique_ptr<Node>\<close>, a non-empty chain. \<^verbatim>\<open>AddToGcQueue\<close> returns at once for the
  null pointer and appends otherwise. The worker thread that later empties the queue is
  not modelled: the queue records what has been handed over.
\<close>

type_synonym 'mv GcQueue = "'mv Node list list"

definition AddToGcQueue :: "'mv Node list \<Rightarrow> 'mv GcQueue \<Rightarrow> 'mv GcQueue" where
  "AddToGcQueue node q = (if node = [] then q else q @ [node])"

text \<open>
  The loop of \<^verbatim>\<open>LowNode::ReleaseChildrenExceptOne\<close>, at the slot holding the chain
  \<open>node\<close> whose head is the \<open>i\<close>-th child. \<open>node_to_save\<close> is a pointer as above:
  \<open>Some i\<close> for the \<open>i\<close>-th child of this LowNode, \<open>None\<close> for null, and any other
  pointer is a position beyond the list. The result is the chain left hanging from this
  slot, \<^verbatim>\<open>saved_node\<close> and the queue. When the node is found its siblings are queued,
  the node is moved out of the slot (which leaves the slot null) and the loop ends.
\<close>

fun ReleaseChildrenExceptOne_loop ::
  "nat option \<Rightarrow> 'mv Node list \<Rightarrow> nat \<Rightarrow> 'mv GcQueue
     \<Rightarrow> 'mv Node list \<times> 'mv Node list \<times> 'mv GcQueue" where
  "ReleaseChildrenExceptOne_loop node_to_save [] i q = ([], [], q)"
| "ReleaseChildrenExceptOne_loop node_to_save (c # sibling) i q =
     (if node_to_save = Some i then ([], [c], AddToGcQueue sibling q)
      else (let (rest, saved_node, q') = ReleaseChildrenExceptOne_loop node_to_save sibling (Suc i) q
            in (c # rest, saved_node, q')))"

text \<open>\<^verbatim>\<open>void LowNode::ReleaseChildrenExceptOne(Node* node_to_save)\<close>: after the loop
  what is left in \<^verbatim>\<open>child_\<close> is queued and the saved node becomes the only child.\<close>

definition LowNode_ReleaseChildrenExceptOne ::
  "'mv LowNode \<Rightarrow> nat option \<Rightarrow> 'mv GcQueue \<Rightarrow> 'mv LowNode \<times> 'mv GcQueue" where
  "LowNode_ReleaseChildrenExceptOne this node_to_save q =
     (let (child1, saved_node, q1) = ReleaseChildrenExceptOne_loop node_to_save (child this) 0 q;
          q2 = AddToGcQueue child1 q1
      in (LowNode (low_data this) saved_node, q2))"

text \<open>
  \<^verbatim>\<open>Node::ReleaseChildrenExceptOne\<close>, which node.cc calls with one argument and whose
  body is in node.h: \<^verbatim>\<open>if (low_node_) low_node_->ReleaseChildrenExceptOne(...)\<close>.
\<close>

definition Node_ReleaseChildrenExceptOne ::
  "'mv Node \<Rightarrow> nat option \<Rightarrow> 'mv GcQueue \<Rightarrow> 'mv Node \<times> 'mv GcQueue" where
  "Node_ReleaseChildrenExceptOne this node_to_save q =
     (case low_node this of
        None \<Rightarrow> (this, q)
      | Some l \<Rightarrow>
          (let (l', q') = LowNode_ReleaseChildrenExceptOne l node_to_save q
           in (Node (node_data this) (Some l'), q')))"

subsection \<open>Spawning children\<close>

text \<open>
  \<^verbatim>\<open>Node* Edge_Iterator::GetOrSpawnNode(Node* parent)\<close> on the child list \<open>cs\<close> of the
  parent's LowNode: the new child list and the pointer returned. A new Node is spliced in
  at the slot \<^verbatim>\<open>node_ptr_\<close>.
\<close>

definition GetOrSpawnNode :: "'mv Node list \<Rightarrow> Edge_Iterator \<Rightarrow> 'mv Node list \<times> nat option" where
  "GetOrSpawnNode cs it =
     (if it_node it \<noteq> None then (cs, it_node it)
      else
        (let (nd, q) = Actualize cs (it_node_ptr it) (it_current_idx it)
         in if nd \<noteq> None then (cs, nd)
            else
              (let tmp = drop q cs;
                   cs' = take q cs @ [Node (Node_init (it_current_idx it)) None] @ tmp
               in (cs', fst (Actualize cs' q (it_current_idx it))))))"

text \<open>\<^verbatim>\<open>LowNode::AddParent(int n_in_flight)\<close>\<close>

definition LowNode_AddParent :: "'mv LowNode_data \<Rightarrow> 32 word \<Rightarrow> 'mv LowNode_data" where
  "LowNode_AddParent ld n_in_flight =
     (let ld1 = ld\<lparr>low_num_parents := low_num_parents ld + 1\<rparr>;
          ld2 = ld1\<lparr>low_is_transposition := (low_is_transposition ld1 \<or> 1 < low_num_parents ld1)\<rparr>
      in ld2\<lparr>low_n_in_flight := low_n_in_flight ld2 + n_in_flight\<rparr>)"

text \<open>
  \<^verbatim>\<open>Node* Node::CreateSingleChildNode(Move move)\<close>: the LowNode made by
  \<^verbatim>\<open>LowNode(MoveList({move}), 0)\<close> has one edge for \<open>move\<close> with \<open>p_ = 0\<close> and one
  child of index \<open>0\<close>; \<^verbatim>\<open>SetLowNode\<close> adds this Node as its parent. The result is this
  Node; the pointer returned is its only child.
\<close>

definition Node_CreateSingleChildNode :: "'mv Node \<Rightarrow> 'mv \<Rightarrow> error + 'mv Node" where
  "Node_CreateSingleChildNode this move =
     (if low_node this \<noteq> None then Inl AssertionFailure
      else
        (let ld = LowNode_init (Some [\<lparr>edge_move = move, edge_p = 0\<rparr>]);
             ld' = LowNode_AddParent ld (node_n_in_flight (node_data this))
         in Inr (Node (node_data this) (Some (LowNode ld' [Node (Node_init 0) None])))))"

subsection \<open>NodeTree\<close>

text \<open>
  The chess library (\<^verbatim>\<open>Move\<close>, \<^verbatim>\<open>ChessBoard\<close>, \<^verbatim>\<open>PositionHistory\<close>) is not among
  the sources; what \<^verbatim>\<open>NodeTree::MakeMove\<close> calls of it is a parameter. \<open>'h\<close> is the
  type of \<^verbatim>\<open>history_\<close>; the board of \<^verbatim>\<open>HeadPosition()\<close> is a function of it.
\<close>

record ('mv, 'h) Chess =
  IsBlackToMove :: "'h \<Rightarrow> bool"
  Mirror :: "'mv \<Rightarrow> 'mv"
  IsSameMove :: "'h \<Rightarrow> 'mv \<Rightarrow> 'mv \<Rightarrow> bool"
  GetModernMove :: "'h \<Rightarrow> 'mv \<Rightarrow> 'mv"
  Append :: "'h \<Rightarrow> 'mv \<Rightarrow> 'h"

text \<open>
  \<^verbatim>\<open>current_head_\<close> points into the tree \<^verbatim>\<open>gamebegin_node_\<close> owns. The tree is kept
  as the subtree at the head and the path above it: one \<open>Frame\<close> for each ancestor, the
  nearest first, with the ancestor's own fields, the fields of its LowNode and the
  children of that LowNode before and after the one on the path.
\<close>

record 'mv Frame =
  frame_node :: Node_data
  frame_low :: "'mv LowNode_data"
  frame_before :: "'mv Node list"
  frame_after :: "'mv Node list"

record ('mv, 'h) NodeTree =
  above :: "'mv Frame list"
  current_head :: "'mv Node"
  history :: 'h
  moves :: "'mv list"

text \<open>
  The loop of \<^verbatim>\<open>NodeTree::MakeMove\<close> over \<^verbatim>\<open>current_head_->Edges()\<close>: at the first
  edge whose move is the same as \<open>move\<close>, the child is fetched or spawned and, if
  terminal, made non-terminal; then \<^verbatim>\<open>break\<close>. The result is the head after the loop
  and \<^verbatim>\<open>new_head\<close>.
\<close>

definition MakeMove_loop ::
  "('mv, 'h) Chess \<Rightarrow> 'h \<Rightarrow> 'mv Node \<Rightarrow> 'mv \<Rightarrow> error + ('mv Node \<times> nat option)" where
  "MakeMove_loop ch h head move =
     (case low_node head of
        None \<Rightarrow> Inr (head, None)
      | Some l \<Rightarrow>
          (case find (\<lambda>it. case low_edges (low_data l) of
                              None \<Rightarrow> False
                            | Some es \<Rightarrow> IsSameMove ch h (edge_move (es ! it_current_idx it)) move)
                     (Node_Edges head) of
             None \<Rightarrow> Inr (head, None)
           | Some it \<Rightarrow>
               (let (cs, new_head) = GetOrSpawnNode (child l) it
                in case new_head of
                     None \<Rightarrow> Inl NullDereference
                   | Some j \<Rightarrow>
                       if Node_IsTerminal (node_data (cs ! j)) then
                         (case Node_MakeNotTerminal (cs ! j) True of
                            Inl e \<Rightarrow> Inl e
                          | Inr c \<Rightarrow> Inr (Node (node_data head) (Some (LowNode (low_data l) (cs[j := c]))),
                                         Some j))
                       else Inr (Node (node_data head) (Some (LowNode (low_data l) cs)), Some j))))"

text \<open>\<^verbatim>\<open>void NodeTree::MakeMove(Move move)\<close>, on the tree and the queue of the
  garbage collector.\<close>

definition NodeTree_MakeMove ::
  "('mv, 'h) Chess \<Rightarrow> ('mv, 'h) NodeTree \<times> 'mv GcQueue \<Rightarrow> 'mv
     \<Rightarrow> error + (('mv, 'h) NodeTree \<times> 'mv GcQueue)" where
  "NodeTree_MakeMove ch tq move0 =
     (let (t, q) = tq;
          h = history t;
          move1 = (if IsBlackToMove ch h then Mirror ch move0 else move0)
      in case MakeMove_loop ch h (current_head t) move1 of
           Inl e \<Rightarrow> Inl e
         | Inr (head1, new_head) \<Rightarrow>
             (let move2 = GetModernMove ch h move1;
                  (head2, q') = Node_ReleaseChildrenExceptOne head1 new_head q
              in case (case Node_GetChild head2 of
                         [] \<Rightarrow> Node_CreateSingleChildNode head2 move2
                       | c # cs \<Rightarrow> Inr head2) of
                   Inl e \<Rightarrow> Inl e
                 | Inr head3 \<Rightarrow>
                     (case low_node head3 of
                        None \<Rightarrow> Inl NullDereference
                      | Some l \<Rightarrow>
                          (case child l of
                             [] \<Rightarrow> Inl NullDereference
                           | c # cs \<Rightarrow>
                               Inr (\<lparr>above = \<lparr>frame_node = node_data head3, frame_low = low_data l,
                                               frame_before = [], frame_after = cs\<rparr> # above t,
                                     current_head = c,
                                     history = Append ch h move2,
                                     moves = moves t @ [move2]\<rparr>, q')))))"

text \<open>The number of Nodes of a subtree, and of the whole tree \<^verbatim>\<open>gamebegin_node_\<close>
  owns.\<close>

fun count_nodes :: "'mv Node \<Rightarrow> nat" and count_low :: "'mv LowNode \<Rightarrow> nat" where
  "count_nodes (Node nd lo) = Suc (case lo of None \<Rightarrow> 0 | Some l \<Rightarrow> count_low l)"
| "count_low (LowNode ld cs) = sum_list (map count_nodes cs)"



text \<open>
  For the proofs: what one pass of the loop of \<^verbatim>\<open>LowNode::MakeNotTerminal\<close> does
  with the child \<open>c\<close> the element holds.
\<close>

definition accumulate_child :: "'mv Node \<Rightarrow> 'mv LowNode_data \<Rightarrow> 'mv LowNode_data" where
  "accumulate_child c ld =
     (if 0 < node_n (node_data c) then
        ld\<lparr>low_n := low_n ld + node_n (node_data c),
           low_wl := low_wl ld + node_wl (node_data c) * fp_of_uint32 (node_n (node_data c)),
           low_d := low_d ld + node_d (node_data c) * fp_of_uint32 (node_n (node_data c)),
           low_m := low_m ld + node_m (node_data c) * fp_of_uint32 (node_n (node_data c))\<rparr>
      else ld)"

subsection \<open>Example data\<close>

text \<open>
  A chess library for the examples: moves are numbers, white is always to move, two moves
  are the same when equal, and the history is the list of the moves made. The example
  tree has a root with the edges \<open>10\<close>, \<open>11\<close>, \<open>12\<close> and two materialized children:
  \<open>example_child_a\<close> on edge \<open>0\<close>, a subtree of two Nodes, and \<open>example_child_b\<close> on
  edge \<open>1\<close>, a subtree of three.
\<close>

abbreviation example_chess :: "(nat, nat list) Chess" where
  "example_chess \<equiv>
     \<lparr>IsBlackToMove = (\<lambda>h. False), Mirror = (\<lambda>m. m), IsSameMove = (\<lambda>h a b. a = b),
      GetModernMove = (\<lambda>h m. m), Append = (\<lambda>h m. h @ [m])\<rparr>"

abbreviation example_edges :: "nat Edge list" where
  "example_edges \<equiv>
     [\<lparr>edge_move = 10, edge_p = 0\<rparr>, \<lparr>edge_move = 11, edge_p = 0\<rparr>, \<lparr>edge_move = 12, edge_p = 0\<rparr>]"

abbreviation example_child_a :: "nat Node" where
  "example_child_a \<equiv>
     Node ((Node_init 0)\<lparr>node_n := 4\<rparr>)
       (Some (LowNode (LowNode_init (Some example_edges))
          [Node ((Node_init 1)\<lparr>node_n := 2\<rparr>) None]))"

abbreviation example_child_b :: "nat Node" where
  "example_child_b \<equiv>
     Node ((Node_init 1)\<lparr>node_n := 3\<rparr>)
       (Some (LowNode (LowNode_init (Some example_edges))
          [Node ((Node_init 0)\<lparr>node_n := 1\<rparr>) None, Node ((Node_init 2)\<lparr>node_n := 1\<rparr>) None]))"

abbreviation example_low :: "nat LowNode_data" where
  "example_low \<equiv> (LowNode_init (Some example_edges))\<lparr>low_n := 9\<rparr>"

abbreviation example_tree :: "(nat, nat list) NodeTree" where
  "example_tree \<equiv>
     \<lparr>above = [],
      current_head = Node ((Node_init 0)\<lparr>node_n := 9\<rparr>)
                       (Some (LowNode example_low [example_child_a, example_child_b])),
      history = [], moves = []\<rparr>"



section \<open>The policy codec\<close>

lemma roundings_eq: "roundings = word_of_int (- 805304320)"
  by (simp add: roundings_def)

lemma sint_tmp:
  assumes "unat p < 2147483648"
  shows "sint (p + roundings) = int (unat p) - 805304320"
proof -
  have "uint p = int (unat p)" by simp
  then have "uint p < 2147483648" using assms by linarith
  then have u: "uint p < 2 ^ 31" "0 \<le> uint p" by simp_all
  have "p + roundings = word_of_int (uint p) + word_of_int (- 805304320)"
    by (simp only: roundings_eq word_of_int_uint)
  also have "\<dots> = word_of_int (uint p - 805304320)"
    by simp
  finally have e: "p + roundings = word_of_int (uint p - 805304320)" .
  have g: "sint (word_of_int k :: 32 word) = signed_take_bit 31 k" for k
    using sint_sbintrunc' [where 'a = 32, of k] by simp
  have "sint (word_of_int (uint p - 805304320) :: 32 word) = signed_take_bit 31 (uint p - 805304320)"
    by (rule g)
  also have "\<dots> = uint p - 805304320"
    by (rule signed_take_bit_int_eq_self) (use u in simp_all)
  finally have f: "sint (word_of_int (uint p - 805304320) :: 32 word) = uint p - 805304320" .
  have "sint (p + roundings) = uint p - 805304320"
    unfolding e by (rule f)
  then show ?thesis by simp
qed

lemma code_nonneg:
  assumes "0 \<le> sint (w :: 32 word)"
  shows "unat (ucast (signed_drop_bit 12 w) :: 16 word) = nat (sint w) div 4096 mod 65536"
proof -
  have r: "sint w < 2 ^ 31" using sint_less [of w] by simp
  have s: "sint (signed_drop_bit 12 w) = sint w div 4096"
    by (simp add: sint_signed_drop_bit_eq drop_bit_eq_div)
  have "uint (signed_drop_bit 12 w) = take_bit 32 (sint (signed_drop_bit 12 w))"
    by (simp add: uint_sint)
  also have "\<dots> = sint w div 4096"
    using assms r s by (simp add: take_bit_int_eq_self)
  finally have u: "uint (signed_drop_bit 12 w) = sint w div 4096" .
  have "unat (ucast (signed_drop_bit 12 w) :: 16 word) = take_bit 16 (unat (signed_drop_bit 12 w))"
    by (simp add: unsigned_ucast_eq)
  also have "\<dots> = unat (signed_drop_bit 12 w) mod 65536"
    by (simp add: take_bit_eq_mod)
  also have "unat (signed_drop_bit 12 w) = nat (sint w div 4096)"
    using u by (simp add: unat_eq_nat_uint)
  also have "nat (sint w div 4096) = nat (sint w) div 4096"
    using assms by (simp add: nat_div_distrib)
  finally show ?thesis .
qed

lemma unat_SetP_code:
  assumes "unat p \<le> 1065353216"
  shows "unat (SetP_code p) = (unat p - 805304320) div 4096"
proof -
  have s: "sint (p + roundings) = int (unat p) - 805304320"
    using assms by (intro sint_tmp) simp
  show ?thesis
  proof (cases "unat p < 805304320")
    case True
    then have "sint (p + roundings) < 0" using s by linarith
    then show ?thesis using True by (simp add: SetP_code_def)
  next
    case False
    then have nn: "0 \<le> sint (p + roundings)" using s by linarith
    have "unat (SetP_code p) = nat (sint (p + roundings)) div 4096 mod 65536"
      using nn code_nonneg [OF nn] by (simp add: SetP_code_def)
    also have "nat (sint (p + roundings)) = unat p - 805304320"
      using s False by linarith
    also have "(unat p - 805304320) div 4096 mod 65536 = (unat p - 805304320) div 4096"
      using assms by simp
    finally show ?thesis .
  qed
qed

lemma mag_num_Suc: "mag_num x < mag_num (Suc x)"
proof (cases "Suc (x mod 2 ^ 23) = 2 ^ 23")
  case False
  then have m: "Suc x mod 2 ^ 23 = Suc (x mod 2 ^ 23)"
    by (simp add: mod_Suc)
  have d: "Suc x div 2 ^ 23 = x div 2 ^ 23"
    using False by (simp add: div_Suc mod_Suc split: if_splits)
  show ?thesis
    unfolding mag_num_def m d by simp
next
  case True
  then have m: "Suc x mod 2 ^ 23 = 0"
    by (simp add: mod_Suc)
  have d: "Suc x div 2 ^ 23 = Suc (x div 2 ^ 23)"
    using True by (simp add: div_Suc mod_Suc)
  have f: "x mod 2 ^ 23 = 2 ^ 23 - 1" using True by simp
  show ?thesis
  proof (cases "x div 2 ^ 23 = 0")
    case True
    then show ?thesis unfolding mag_num_def m d f by simp
  next
    case False
    then have "max (x div 2 ^ 23) 1 = x div 2 ^ 23" by simp
    then show ?thesis unfolding mag_num_def m d f using False by simp
  qed
qed

lemma mag_num_strict_mono: "x < y \<Longrightarrow> mag_num x < mag_num y"
  by (rule lift_Suc_mono_less [of mag_num]) (rule mag_num_Suc)

lemma f32_magnitude_mag_num:
  assumes "unat w < 2147483648"
  shows "f32_magnitude w = real (mag_num (unat w)) / 2 ^ 150"
proof -
  have "unat w div 2 ^ 23 < 256" using assms by simp
  then have e: "f32_exponent w = unat w div 2 ^ 23" by (simp add: f32_exponent_def)
  show ?thesis
  proof (cases "unat w div 2 ^ 23 = 0")
    case True
    then show ?thesis by (simp add: f32_magnitude_def e f32_fraction_def mag_num_def)
  next
    case False
    then have "max (unat w div 2 ^ 23) 1 = unat w div 2 ^ 23" by simp
    then show ?thesis using False by (simp add: f32_magnitude_def e f32_fraction_def mag_num_def)
  qed
qed

lemma f32_value_nonneg_pattern:
  assumes "unat w < 2147483648"
  shows "f32_value w = real (mag_num (unat w)) / 2 ^ 150"
  using assms by (simp add: f32_value_def f32_sign_def f32_magnitude_mag_num)

lemma f32_value_strict_mono:
  assumes "unat a < 2147483648" "unat b < 2147483648" "unat a < unat b"
  shows "f32_value a < f32_value b"
  using assms mag_num_strict_mono [of "unat a" "unat b"]
  by (simp add: f32_value_nonneg_pattern divide_strict_right_mono)

lemma f32_value_le_iff:
  assumes "unat a < 2147483648" "unat b < 2147483648"
  shows "f32_value a \<le> f32_value b \<longleftrightarrow> unat a \<le> unat b"
proof
  assume "f32_value a \<le> f32_value b"
  then show "unat a \<le> unat b"
    using f32_value_strict_mono [OF assms(2) assms(1)] by (cases "unat b < unat a") simp_all
next
  assume "unat a \<le> unat b"
  then consider "unat a < unat b" | "unat a = unat b" by linarith
  then show "f32_value a \<le> f32_value b"
  proof cases
    case 1
    then show ?thesis using f32_value_strict_mono [OF assms] by simp
  next
    case 2
    then show ?thesis using assms by (simp add: f32_value_nonneg_pattern)
  qed
qed

text \<open>The floats the assert of \<^verbatim>\<open>SetP\<close> admits: the patterns from \<open>0.0\<close> up to
  \<open>1.0\<close>, and \<open>-0.0\<close>.\<close>

lemma unit_interval_patterns:
  assumes "f32_le 0 p" "f32_le p 0x3F800000"
  shows "unat p \<le> 1065353216 \<or> p = 0x80000000"
proof (cases "unat p < 2147483648")
  case True
  have "f32_value p \<le> f32_value 0x3F800000" using assms(2) by (simp add: f32_le_def)
  then have "unat p \<le> unat (0x3F800000 :: 32 word)"
    using f32_value_le_iff [of p "0x3F800000"] True by simp
  then show ?thesis by simp
next
  case False
  then have s: "f32_sign p" by (simp add: f32_sign_def)
  have "0 \<le> f32_value p"
    using assms(1)
    by (simp add: f32_le_def f32_value_def f32_sign_def f32_magnitude_def f32_exponent_def
        f32_fraction_def)
  then have m: "f32_magnitude p \<le> 0" using s by (simp add: f32_value_def)
  have e: "f32_exponent p = 0"
  proof (rule ccontr)
    assume "f32_exponent p \<noteq> 0"
    then have "0 < f32_magnitude p" by (simp add: f32_magnitude_def)
    then show False using m by simp
  qed
  then have f: "f32_fraction p = 0" using m by (simp add: f32_magnitude_def)
  have lt: "unat p < 4294967296" using unsigned_less [of p] by simp
  define q where "q = unat p div 8388608"
  have qm: "q mod 256 = 0" using e by (simp add: f32_exponent_def q_def)
  have pq: "unat p = q * 8388608"
    using f div_mult_mod_eq [of "unat p" 8388608] by (simp add: f32_fraction_def q_def)
  have "256 \<le> q" "q < 512" using False lt pq by simp_all
  then have "q = 256" using qm by presburger
  then have "unat p = 2147483648" using pq by simp
  then have "unat p = unat (0x80000000 :: 32 word)" by simp
  then have "p = 0x80000000" by (simp only: word_unat_eq_iff)
  then show ?thesis by simp
qed

lemma SetP_code_neg_zero: "SetP_code 0x80000000 = 0"
  by (simp add: SetP_code_def roundings_def)

lemma SetP_code_mono:
  assumes "f32_le 0 a" "f32_le a 0x3F800000" "f32_le 0 b" "f32_le b 0x3F800000" "f32_le a b"
  shows "SetP_code a \<le> SetP_code b"
proof -
  consider "a = 0x80000000" | "b = 0x80000000" "unat a \<le> 1065353216"
    | "unat a \<le> 1065353216" "unat b \<le> 1065353216"
    using unit_interval_patterns [OF assms(1,2)] unit_interval_patterns [OF assms(3,4)] by blast
  then show ?thesis
  proof cases
    case 1
    then show ?thesis by (simp add: SetP_code_neg_zero)
  next
    case 2
    have vb: "f32_value b = 0"
      using 2(1)
      by (simp add: f32_value_def f32_sign_def f32_magnitude_def f32_exponent_def
          f32_fraction_def)
    have "f32_value a \<le> f32_value (0 :: 32 word)"
      using assms(5) vb
      by (simp add: f32_le_def f32_value_def f32_sign_def f32_magnitude_def f32_exponent_def
          f32_fraction_def)
    then have "unat a \<le> unat (0 :: 32 word)"
      using f32_value_le_iff [of a 0] 2(2) by simp
    then have "a = 0" by (simp add: unat_eq_zero)
    then show ?thesis by (simp add: SetP_code_def roundings_def)
  next
    case 3
    have "f32_value a \<le> f32_value b" using assms(5) by (simp add: f32_le_def)
    then have "unat a \<le> unat b" using f32_value_le_iff [of a b] 3 by simp
    then have "(unat a - 805304320) div 4096 \<le> (unat b - 805304320) div 4096"
      by (intro div_le_mono) simp
    then have "unat (SetP_code a) \<le> unat (SetP_code b)"
      using 3 by (simp add: unat_SetP_code)
    then show ?thesis by (simp add: word_le_nat_alt)
  qed
qed

lemma unat_Edge_GetP: "unat (Edge_GetP e) = 805306368 + unat (edge_p e) * 4096"
proof -
  define x :: "32 word" where "x = push_bit 12 (ucast (edge_p e))"
  have lt: "unat (edge_p e) < 65536" using unsigned_less [of "edge_p e"] by simp
  have ux: "unat x = unat (edge_p e) * 4096"
  proof -
    have "unat (ucast (edge_p e) :: 32 word) = unat (edge_p e)"
      using lt by (simp add: unsigned_ucast_eq take_bit_nat_eq_self)
    then show ?thesis
      using lt by (simp add: x_def unat_word_ariths push_bit_eq_mult)
  qed
  have hi: "28 \<le> n" if "bit (push_bit 28 (3 :: 32 word)) n" for n
    using that by (simp only: bit_push_bit_iff)
  have lo: "n < 28" if "bit x n" for n
  proof -
    have "12 \<le> n" "bit (edge_p e) (n - 12)"
      using that by (simp_all add: x_def bit_simps)
    then show ?thesis using bit_imp_le_length [of "edge_p e" "n - 12"] by simp
  qed
  have disj: "x AND push_bit 28 3 = 0"
  proof (rule bit_word_eqI)
    fix n
    have "\<not> (bit x n \<and> bit (push_bit 28 (3 :: 32 word)) n)"
      using hi [of n] lo [of n] by fastforce
    then show "bit (x AND push_bit 28 3) n \<longleftrightarrow> bit (0 :: 32 word) n"
      by (simp only: bit_and_iff bit_0_eq bot_apply bot_bool_def)
  qed
  have "x OR push_bit 28 3 = x + push_bit 28 3"
    using disjunctive_add_eq_or [OF disj] by simp
  then have "unat (Edge_GetP e) = unat (x + 0x30000000)"
    by (simp add: Edge_GetP_def x_def)
  also have "\<dots> = unat x + 805306368"
    using ux lt by (simp add: unat_word_ariths)
  finally show ?thesis using ux by simp
qed

lemma Edge_GetP_not_nan: "\<not> f32_is_nan (Edge_GetP e)"
proof -
  have lt: "unat (edge_p e) < 65536" using unsigned_less [of "edge_p e"] by simp
  have "(805306368 + unat (edge_p e) * 4096) div 2 ^ 23 < 128"
    using lt by simp
  then show ?thesis
    by (simp add: f32_is_nan_def f32_exponent_def unat_Edge_GetP)
qed

lemma Edge_GetP_order:
  "f32_le (Edge_GetP x) (Edge_GetP y) \<longleftrightarrow> edge_p x \<le> edge_p y"
proof -
  have lx: "unat (edge_p x) < 65536" using unsigned_less [of "edge_p x"] by simp
  have ly: "unat (edge_p y) < 65536" using unsigned_less [of "edge_p y"] by simp
  have "f32_value (Edge_GetP x) \<le> f32_value (Edge_GetP y)
        \<longleftrightarrow> unat (Edge_GetP x) \<le> unat (Edge_GetP y)"
    using lx ly by (intro f32_value_le_iff) (simp_all add: unat_Edge_GetP)
  then show ?thesis
    by (simp add: f32_le_def Edge_GetP_not_nan unat_Edge_GetP word_le_nat_alt)
qed

text \<open>
  Claim C4. The codec is monotone: when \<open>SetP\<close> accepts \<open>a\<close> and \<open>b\<close> (both in
  \<open>[0, 1]\<close>) and \<open>a \<le> b\<close> as floats, the code stored for \<open>a\<close> is at most
  the code stored for \<open>b\<close>; and the raw codes of two edges are ordered as the floats
  \<open>GetP\<close> decodes them to.
\<close>

theorem SetP_monotone:
  assumes "Edge_SetP e1 a = Inr e1'" and "Edge_SetP e2 b = Inr e2'" and "f32_le a b"
  shows "edge_p e1' \<le> edge_p e2'
         \<and> (edge_p x \<le> edge_p y \<longleftrightarrow> f32_le (Edge_GetP x) (Edge_GetP y))"
proof -
  have a: "f32_le 0 a" "f32_le a 0x3F800000" and e1: "e1' = e1\<lparr>edge_p := SetP_code a\<rparr>"
    using assms(1) by (auto simp: Edge_SetP_def split: if_splits)
  have b: "f32_le 0 b" "f32_le b 0x3F800000" and e2: "e2' = e2\<lparr>edge_p := SetP_code b\<rparr>"
    using assms(2) by (auto simp: Edge_SetP_def split: if_splits)
  have "edge_p e1' \<le> edge_p e2'"
    using SetP_code_mono [OF a b assms(3)] by (simp add: e1 e2)
  then show ?thesis
    by (simp add: Edge_GetP_order)
qed

text \<open>At \<open>a = 0.25\<close> (bits \<open>0x3E800000\<close>) and \<open>b = 0.5\<close> (bits \<open>0x3F000000\<close>):
  the codes are \<open>0xE800\<close> and \<open>0xF000\<close>.\<close>

theorem SetP_monotone_witness:
  "Edge_SetP \<lparr>edge_move = (), edge_p = 0\<rparr> 0x3E800000 = Inr \<lparr>edge_move = (), edge_p = 0xE800\<rparr>
   \<and> Edge_SetP \<lparr>edge_move = (), edge_p = 0\<rparr> 0x3F000000 = Inr \<lparr>edge_move = (), edge_p = 0xF000\<rparr>
   \<and> f32_le 0x3E800000 0x3F000000
   \<and> (0xE800 :: 16 word) \<le> 0xF000"
proof -
  have h1: "Edge_SetP \<lparr>edge_move = (), edge_p = 0\<rparr> 0x3E800000
            = Inr \<lparr>edge_move = (), edge_p = 0xE800\<rparr>"
    by (simp add: Edge_SetP_def SetP_code_def roundings_def f32_le_def f32_is_nan_def
        f32_value_def f32_sign_def f32_magnitude_def f32_exponent_def f32_fraction_def)
  have h2: "Edge_SetP \<lparr>edge_move = (), edge_p = 0\<rparr> 0x3F000000
            = Inr \<lparr>edge_move = (), edge_p = 0xF000\<rparr>"
    by (simp add: Edge_SetP_def SetP_code_def roundings_def f32_le_def f32_is_nan_def
        f32_value_def f32_sign_def f32_magnitude_def f32_exponent_def f32_fraction_def)
  have h3: "f32_le 0x3E800000 0x3F000000"
    by (simp add: f32_le_def f32_is_nan_def f32_value_def f32_sign_def f32_magnitude_def
        f32_exponent_def f32_fraction_def)
  from SetP_monotone [OF h1 h2 h3] have "(0xE800 :: 16 word) \<le> 0xF000"
    by simp
  with h1 h2 h3 show ?thesis by blast
qed

text \<open>
  Claim C5, as the code has it. \<open>SetP(0.0)\<close> stores code \<open>0\<close>. Code \<open>0\<close> decodes
  to the float with bits \<open>0x30000000\<close>, which is \<open>2\<^sup>-\<^sup>3\<^sup>1\<close> (the smallest value the
  format holds), not \<open>0\<close>. \<open>SetP(1.0)\<close> stores code \<open>0xF800\<close>, which decodes to
  exactly \<open>1.0\<close> (bits \<open>0x3F800000\<close>).
\<close>

theorem codec_boundary_values:
  "Edge_SetP e 0 = Inr (e\<lparr>edge_p := 0\<rparr>)
   \<and> Edge_GetP (e\<lparr>edge_p := 0\<rparr>) = 0x30000000
   \<and> f32_value (Edge_GetP (e\<lparr>edge_p := 0\<rparr>)) = 1 / 2 ^ 31
   \<and> Edge_SetP e 0x3F800000 = Inr (e\<lparr>edge_p := 0xF800\<rparr>)
   \<and> Edge_GetP (e\<lparr>edge_p := 0xF800\<rparr>) = 0x3F800000
   \<and> f32_value (Edge_GetP (e\<lparr>edge_p := 0xF800\<rparr>)) = 1"
  by (simp add: Edge_SetP_def SetP_code_def roundings_def Edge_GetP_def f32_le_def
      f32_is_nan_def f32_value_def f32_sign_def f32_magnitude_def f32_exponent_def
      f32_fraction_def)

text \<open>
  The claim as written fails twice: the float decoded from code \<open>0\<close> is not \<open>0\<close>, and
  the code of \<open>1.0\<close> is none of \<open>0xF000 - 1\<close>, \<open>0xF000\<close>, \<open>0xF000 + 1\<close>.
\<close>

theorem codec_boundary_counterexample:
  "f32_value (Edge_GetP \<lparr>edge_move = (), edge_p = 0\<rparr>) \<noteq> 0
   \<and> Edge_SetP \<lparr>edge_move = (), edge_p = 0\<rparr> 0x3F800000
       = Inr \<lparr>edge_move = (), edge_p = 0xF800\<rparr>
   \<and> (0xF800 :: 16 word) \<noteq> 0xF000 - 1 \<and> (0xF800 :: 16 word) \<noteq> 0xF000
   \<and> (0xF800 :: 16 word) \<noteq> 0xF000 + 1"
  by (simp add: Edge_SetP_def SetP_code_def roundings_def Edge_GetP_def f32_le_def
      f32_is_nan_def f32_value_def f32_sign_def f32_magnitude_def f32_exponent_def
      f32_fraction_def)

section \<open>Score updates\<close>






text \<open>
  Claim C2. \<open>TryStartScoreUpdate\<close> returns false, leaving the node as it is, exactly
  when \<open>n = 0\<close> and \<open>n_in_flight > 0\<close>; otherwise it adds one to \<open>n_in_flight\<close> and
  returns true. On a fresh Node the first call returns true, the second false; after
  \<open>FinalizeScoreUpdate(0.3, 0.1, 20, 1)\<close> a further call returns true and leaves
  \<open>n = 1\<close>, \<open>n_in_flight = 1\<close>, \<open>wl = 0.3\<close>.
\<close>

theorem TryStartScoreUpdate_gate:
  "Node_TryStartScoreUpdate nd =
     (if node_n nd = 0 \<and> 0 < node_n_in_flight nd then (False, nd)
      else (True, nd\<lparr>node_n_in_flight := node_n_in_flight nd + 1\<rparr>))
   \<and> (fst (Node_TryStartScoreUpdate nd) = False
        \<longleftrightarrow> node_n nd = 0 \<and> 0 < node_n_in_flight nd)
   \<and> Node_TryStartScoreUpdate (Node_init i) = (True, (Node_init i)\<lparr>node_n_in_flight := 1\<rparr>)
   \<and> Node_TryStartScoreUpdate ((Node_init i)\<lparr>node_n_in_flight := 1\<rparr>)
       = (False, (Node_init i)\<lparr>node_n_in_flight := 1\<rparr>)
   \<and> Node_FinalizeScoreUpdate ((Node_init i)\<lparr>node_n_in_flight := 1\<rparr>)
         (Finite (3 / 10)) (Finite (1 / 10)) (Finite 20) 1
       = Inr ((Node_init i)\<lparr>node_wl := Finite (3 / 10), node_d := Finite (1 / 10),
                              node_m := Finite 20, node_n := 1, node_n_in_flight := 0\<rparr>)
   \<and> Node_TryStartScoreUpdate
         ((Node_init i)\<lparr>node_wl := Finite (3 / 10), node_d := Finite (1 / 10),
                          node_m := Finite 20, node_n := 1, node_n_in_flight := 0\<rparr>)
       = (True, (Node_init i)\<lparr>node_wl := Finite (3 / 10), node_d := Finite (1 / 10),
                               node_m := Finite 20, node_n := 1, node_n_in_flight := 1\<rparr>)"
  by (simp add: Node_TryStartScoreUpdate_def Node_FinalizeScoreUpdate_def Node_init_def
      fp_of_int_def fp_of_uint32_def zero_fp_def plus_fp_def minus_fp_def uminus_fp_def
      times_fp_def divide_fp_def)

section \<open>Terminal types\<close>





section \<open>Visited children\<close>

lemma VisitedNode_range_skip:
  "VisitedNode_range (VisitedNode_skip cs) =
     filter (\<lambda>c. 0 < node_n (node_data c))
       (takeWhile (\<lambda>c. \<not> (node_n (node_data c) = 0 \<and> node_n_in_flight (node_data c) = 0)) cs)"
proof (induction cs)
  case Nil
  then show ?case by simp
next
  case (Cons c cs)
  then show ?case
    by (simp add: VisitedNode_increment_def word_neq_0_conv)
qed

lemma Node_VisitedNodes_children:
  assumes "Node_GetChild parent = c0 # cs"
  shows "Node_VisitedNodes parent =
     filter (\<lambda>c. 0 < node_n (node_data c))
       (c0 # takeWhile (\<lambda>c. \<not> (node_n (node_data c) = 0 \<and> node_n_in_flight (node_data c) = 0)) cs)"
  using assms
  by (simp add: Node_VisitedNodes_def VisitedNode_begin_def VisitedNode_increment_def
      VisitedNode_range_skip word_neq_0_conv)

text \<open>
  Claim C8, as the code has it. \<open>VisitedNodes\<close> yields only Nodes with \<open>N > 0\<close>. The
  first child is yielded when its \<open>N > 0\<close> and skipped otherwise, and never ends the
  iteration. Among the later children the iteration ends at the first one with \<open>N = 0\<close>
  and \<open>n_in_flight = 0\<close>: neither it nor any Node after it is yielded, and of the
  children before it exactly those with \<open>N > 0\<close> are, in order.
\<close>

theorem VisitedNodes_yield:
  "(\<forall>c \<in> set (Node_VisitedNodes parent). 0 < node_n (node_data c))
   \<and> (Node_GetChild parent = [] \<longrightarrow> Node_VisitedNodes parent = [])
   \<and> (Node_GetChild parent = c0 # cs \<longrightarrow>
        Node_VisitedNodes parent =
          filter (\<lambda>c. 0 < node_n (node_data c))
            (c0 # takeWhile (\<lambda>c. \<not> (node_n (node_data c) = 0
                                        \<and> node_n_in_flight (node_data c) = 0)) cs))"
proof (cases "Node_GetChild parent")
  case Nil
  then show ?thesis by (simp add: Node_VisitedNodes_def VisitedNode_begin_def)
next
  case (Cons a as)
  then show ?thesis using Node_VisitedNodes_children [OF Cons] by auto
qed

text \<open>
  A Node without LowNode yields nothing. With five children of \<open>(N, n_in_flight)\<close> equal
  to \<open>(3, 0)\<close>, \<open>(0, 1)\<close>, \<open>(2, 0)\<close>, \<open>(0, 0)\<close>, \<open>(7, 0)\<close> the first and the third
  are yielded: the second is skipped, the fourth ends the iteration.
\<close>

theorem VisitedNodes_yield_witness:
  "Node_GetChild (Node (Node_init 0) None :: unit Node) = []
   \<and> Node_VisitedNodes (Node (Node_init 0) None :: unit Node) = []
   \<and> Node_VisitedNodes
        (Node (Node_init 0)
           (Some (LowNode (LowNode_init (Some (replicate 5 \<lparr>edge_move = (), edge_p = 0\<rparr>)))
              [Node ((Node_init 0)\<lparr>node_n := 3\<rparr>) None,
               Node ((Node_init 1)\<lparr>node_n_in_flight := 1\<rparr>) None,
               Node ((Node_init 2)\<lparr>node_n := 2\<rparr>) None,
               Node (Node_init 3) None,
               Node ((Node_init 4)\<lparr>node_n := 7\<rparr>) None])))
       = [Node ((Node_init 0)\<lparr>node_n := 3\<rparr>) None, Node ((Node_init 2)\<lparr>node_n := 2\<rparr>) None]
   \<and> 0 < node_n (node_data (Node ((Node_init 0)\<lparr>node_n := 3\<rparr>) None :: unit Node))
   \<and> 0 < node_n (node_data (Node ((Node_init 2)\<lparr>node_n := 2\<rparr>) None :: unit Node))"
  using VisitedNodes_yield [of "Node (Node_init 0) None :: unit Node"]
    VisitedNodes_yield
      [of "Node (Node_init 0)
           (Some (LowNode (LowNode_init (Some (replicate 5 \<lparr>edge_move = (), edge_p = 0\<rparr>)))
              [Node ((Node_init 0)\<lparr>node_n := 3\<rparr>) None,
               Node ((Node_init 1)\<lparr>node_n_in_flight := 1\<rparr>) None,
               Node ((Node_init 2)\<lparr>node_n := 2\<rparr>) None,
               Node (Node_init 3) None,
               Node ((Node_init 4)\<lparr>node_n := 7\<rparr>) None]))"
          "Node ((Node_init 0)\<lparr>node_n := 3\<rparr>) None :: unit Node"
          "[Node ((Node_init 1)\<lparr>node_n_in_flight := 1\<rparr>) None,
            Node ((Node_init 2)\<lparr>node_n := 2\<rparr>) None,
            Node (Node_init 3) None,
            Node ((Node_init 4)\<lparr>node_n := 7\<rparr>) None]"]
  by (simp add: Node_GetChild_def Node_init_def)

text \<open>
  The claim as written fails when the first child has \<open>N = 0\<close> and \<open>n_in_flight = 0\<close>:
  the constructor steps over it without the test of \<^verbatim>\<open>operator++\<close>, and a later child
  with \<open>N = 5\<close> is yielded.
\<close>

theorem VisitedNodes_first_child_counterexample:
  "Node_GetChild
      (Node (Node_init 0)
         (Some (LowNode (LowNode_init (Some (replicate 2 \<lparr>edge_move = (), edge_p = 0\<rparr>)))
            [Node (Node_init 0) None, Node ((Node_init 1)\<lparr>node_n := 5\<rparr>) None])))
     = [Node (Node_init 0) None, Node ((Node_init 1)\<lparr>node_n := 5\<rparr>) None :: unit Node]
   \<and> node_n (Node_init 0) = 0 \<and> node_n_in_flight (Node_init 0) = 0
   \<and> Node_VisitedNodes
        (Node (Node_init 0)
           (Some (LowNode (LowNode_init (Some (replicate 2 \<lparr>edge_move = (), edge_p = 0\<rparr>)))
              [Node (Node_init 0) None, Node ((Node_init 1)\<lparr>node_n := 5\<rparr>) None])))
       = [Node ((Node_init 1)\<lparr>node_n := 5\<rparr>) None :: unit Node]"
  by (simp add: Node_VisitedNodes_def VisitedNode_begin_def VisitedNode_increment_def
      Node_GetChild_def Node_init_def)

section \<open>Sorting the edges\<close>






section \<open>Reverting a terminal LowNode\<close>

lemma Actualize_ordered:
  assumes "\<forall>c \<in> set (drop q cs). idx \<le> node_index (node_data c)"
  shows "Actualize cs q idx =
           (if q < length cs \<and> node_index (node_data (cs ! q)) = idx then (Some q, Suc q)
            else (None, q))"
proof -
  have "takeWhile (\<lambda>c. node_index (node_data c) < idx) (drop q cs) = []"
    using assms by (cases "drop q cs") (auto simp: not_less)
  then show ?thesis by (simp add: Actualize_def)
qed

lemma MakeNotTerminal_body_Some:
  "MakeNotTerminal_body cs \<lparr>it_current_idx = i, it_node = Some j, it_node_ptr = q\<rparr> ld
     = accumulate_child (cs ! j) ld"
  by (simp add: MakeNotTerminal_body_def accumulate_child_def EdgeAndNode_GetN_def
      EdgeAndNode_GetWL_def EdgeAndNode_GetD_def EdgeAndNode_GetM_def Let_def)

lemma MakeNotTerminal_body_None:
  "MakeNotTerminal_body cs \<lparr>it_current_idx = i, it_node = None, it_node_ptr = q\<rparr> ld = ld"
  by (simp add: MakeNotTerminal_body_def EdgeAndNode_GetN_def)

lemma fold_Edges_iter:
  assumes "sorted_wrt (<) (map (\<lambda>c. node_index (node_data c)) (drop q cs))"
    and "\<forall>c \<in> set (drop q cs). idx \<le> node_index (node_data c) \<and> node_index (node_data c) < idx + k"
  shows "fold (MakeNotTerminal_body cs) (Edges_iter cs k idx q) ld
           = fold accumulate_child (drop q cs) ld"
  using assms
proof (induction k arbitrary: idx q ld)
  case 0
  then have "drop q cs = []" by (cases "drop q cs") auto
  then show ?case by simp
next
  case (Suc k)
  have low: "\<forall>c \<in> set (drop q cs). idx \<le> node_index (node_data c)"
    using Suc.prems(2) by blast
  note act = Actualize_ordered [OF low]
  show ?case
  proof (cases "q < length cs \<and> node_index (node_data (cs ! q)) = idx")
    case True
    then have d: "drop q cs = cs ! q # drop (Suc q) cs"
      by (simp add: Cons_nth_drop_Suc)
    have s: "sorted_wrt (<) (map (\<lambda>c. node_index (node_data c)) (drop (Suc q) cs))"
      using Suc.prems(1) d by simp
    have b: "\<forall>c \<in> set (drop (Suc q) cs).
               Suc idx \<le> node_index (node_data c) \<and> node_index (node_data c) < Suc idx + k"
      using Suc.prems d True by auto
    have a: "Actualize cs q idx = (Some q, Suc q)"
      using True by (simp add: act)
    show ?thesis
      using Suc.IH [OF s b] d
      by (simp add: a MakeNotTerminal_body_Some)
  next
    case False
    have b: "\<forall>c \<in> set (drop q cs).
               Suc idx \<le> node_index (node_data c) \<and> node_index (node_data c) < Suc idx + k"
    proof
      fix c assume c: "c \<in> set (drop q cs)"
      then have ne: "drop q cs \<noteq> []" by auto
      then have ql: "q < length cs" by simp
      then have d: "drop q cs = cs ! q # drop (Suc q) cs"
        by (simp add: Cons_nth_drop_Suc)
      have h: "idx < node_index (node_data (cs ! q))"
        using False ql Suc.prems(2) d by (metis le_neq_implies_less list.set_intros(1))
      have "node_index (node_data (cs ! q)) \<le> node_index (node_data c)"
        using c d Suc.prems(1) by auto
      then show "Suc idx \<le> node_index (node_data c) \<and> node_index (node_data c) < Suc idx + k"
        using h Suc.prems(2) c by auto
    qed
    have a: "Actualize cs q idx = (None, q)"
      using False by (auto simp: act)
    show ?thesis
      using Suc.IH [OF Suc.prems(1) b]
      by (simp add: a MakeNotTerminal_body_None)
  qed
qed

lemma fold_accumulate_child:
  "fold accumulate_child cs ld =
     ld\<lparr>low_n := low_n ld + sum_list (map (\<lambda>c. node_n (node_data c))
                                 (filter (\<lambda>c. 0 < node_n (node_data c)) cs)),
        low_wl := foldl (+) (low_wl ld)
                    (map (\<lambda>c. node_wl (node_data c) * fp_of_uint32 (node_n (node_data c)))
                       (filter (\<lambda>c. 0 < node_n (node_data c)) cs)),
        low_d := foldl (+) (low_d ld)
                    (map (\<lambda>c. node_d (node_data c) * fp_of_uint32 (node_n (node_data c)))
                       (filter (\<lambda>c. 0 < node_n (node_data c)) cs)),
        low_m := foldl (+) (low_m ld)
                    (map (\<lambda>c. node_m (node_data c) * fp_of_uint32 (node_n (node_data c)))
                       (filter (\<lambda>c. 0 < node_n (node_data c)) cs))\<rparr>"
proof (induction cs arbitrary: ld)
  case Nil
  then show ?case by simp
next
  case (Cons c cs)
  have "fold accumulate_child (c # cs) ld = fold accumulate_child cs (accumulate_child c ld)"
    by simp
  also note Cons.IH [of "accumulate_child c ld"]
  finally have e: "fold accumulate_child (c # cs) ld =
      (accumulate_child c ld)
        \<lparr>low_n := low_n (accumulate_child c ld)
             + sum_list (map (\<lambda>c. node_n (node_data c))
                 (filter (\<lambda>c. 0 < node_n (node_data c)) cs)),
         low_wl := foldl (+) (low_wl (accumulate_child c ld))
                    (map (\<lambda>c. node_wl (node_data c) * fp_of_uint32 (node_n (node_data c)))
                       (filter (\<lambda>c. 0 < node_n (node_data c)) cs)),
         low_d := foldl (+) (low_d (accumulate_child c ld))
                    (map (\<lambda>c. node_d (node_data c) * fp_of_uint32 (node_n (node_data c)))
                       (filter (\<lambda>c. 0 < node_n (node_data c)) cs)),
         low_m := foldl (+) (low_m (accumulate_child c ld))
                    (map (\<lambda>c. node_m (node_data c) * fp_of_uint32 (node_n (node_data c)))
                       (filter (\<lambda>c. 0 < node_n (node_data c)) cs))\<rparr>" .
  show ?case
    unfolding e by (simp add: accumulate_child_def add.assoc)
qed

text \<open>
  The correct part of claim C3. For a terminal LowNode with edges, and an incoming Node
  that has edges and whose children are in ascending order of index, each below the number
  of edges (the order the child list is kept in), \<open>MakeNotTerminal\<close> resets the terminal
  type and the bounds and sets \<open>N\<close> to the sum of \<open>c.n\<close> and \<open>W\<close>, \<open>D\<close>, \<open>M\<close> to
  the sums of \<open>c.wl * c.n\<close>, \<open>c.d * c.n\<close>, \<open>c.m * c.n\<close> divided by \<open>N\<close>, over the
  children \<open>c\<close> with \<open>c.n > 0\<close>. The sum of the \<open>c.n\<close> is the 32-bit one.
\<close>

lemma LowNode_MakeNotTerminal_visited_average:
  assumes "low_edges (low_data this) \<noteq> None" and "LowNode_IsTerminal (low_data this)"
    and "0 < Node_GetNumEdges node"
    and "sorted_wrt (<) (map (\<lambda>c. node_index (node_data c)) (Node_GetChild node))"
    and "\<forall>c \<in> set (Node_GetChild node). node_index (node_data c) < Node_GetNumEdges node"
  shows "LowNode_MakeNotTerminal this node =
     Inr (LowNode
       ((low_data this)
          \<lparr>low_terminal_type := NonTerminal, low_lower_bound := BLACK_WON,
           low_upper_bound := WHITE_WON,
           low_n := sum_list (map (\<lambda>c. node_n (node_data c))
                      (filter (\<lambda>c. 0 < node_n (node_data c)) (Node_GetChild node))),
           low_wl := foldl (+) 0
                       (map (\<lambda>c. node_wl (node_data c) * fp_of_uint32 (node_n (node_data c)))
                          (filter (\<lambda>c. 0 < node_n (node_data c)) (Node_GetChild node)))
                     / fp_of_uint32 (sum_list (map (\<lambda>c. node_n (node_data c))
                          (filter (\<lambda>c. 0 < node_n (node_data c)) (Node_GetChild node)))),
           low_d := foldl (+) 0
                       (map (\<lambda>c. node_d (node_data c) * fp_of_uint32 (node_n (node_data c)))
                          (filter (\<lambda>c. 0 < node_n (node_data c)) (Node_GetChild node)))
                     / fp_of_uint32 (sum_list (map (\<lambda>c. node_n (node_data c))
                          (filter (\<lambda>c. 0 < node_n (node_data c)) (Node_GetChild node)))),
           low_m := foldl (+) 0
                       (map (\<lambda>c. node_m (node_data c) * fp_of_uint32 (node_n (node_data c)))
                          (filter (\<lambda>c. 0 < node_n (node_data c)) (Node_GetChild node)))
                     / fp_of_uint32 (sum_list (map (\<lambda>c. node_n (node_data c))
                          (filter (\<lambda>c. 0 < node_n (node_data c)) (Node_GetChild node))))\<rparr>)
       (child this))"
proof -
  have f: "fold (MakeNotTerminal_body (Node_GetChild node)) (Node_Edges node) ld
             = fold accumulate_child (Node_GetChild node) ld" for ld
    using fold_Edges_iter [of 0 "Node_GetChild node" 0 "Node_GetNumEdges node" ld] assms(4,5)
    by (simp add: Node_Edges_def)
  show ?thesis
    using assms(1,2,3)
    by (simp add: LowNode_MakeNotTerminal_def Let_def f fold_accumulate_child)
qed

text \<open>Scenario S3 of the spec: children \<open>A\<close> (\<open>n = 3\<close>, \<open>wl = 0.4\<close>, \<open>d = 0.2\<close>,
  \<open>m = 10\<close>) and \<open>B\<close> (\<open>n = 1\<close>, \<open>wl = -0.1\<close>, \<open>d = 0.5\<close>, \<open>m = 12\<close>) give
  \<open>n = 4\<close>, \<open>wl = 0.275\<close>, \<open>d = 0.275\<close>, \<open>m = 10.5\<close>.\<close>

lemma LowNode_MakeNotTerminal_scenario:
  "LowNode_MakeNotTerminal
     (LowNode (LowNode_MakeTerminal (LowNode_init (Some (replicate 2 \<lparr>edge_move = (), edge_p = 0\<rparr>)))
                 DRAW (Finite 5) EndOfGame)
        [Node ((Node_init 0)\<lparr>node_n := 3, node_wl := Finite (2 / 5), node_d := Finite (1 / 5),
                              node_m := Finite 10\<rparr>) None,
         Node ((Node_init 1)\<lparr>node_n := 1, node_wl := Finite (- 1 / 10), node_d := Finite (1 / 2),
                              node_m := Finite 12\<rparr>) None])
     (Node (Node_init 0)
        (Some (LowNode (LowNode_MakeTerminal
                          (LowNode_init (Some (replicate 2 \<lparr>edge_move = (), edge_p = 0\<rparr>)))
                          DRAW (Finite 5) EndOfGame)
           [Node ((Node_init 0)\<lparr>node_n := 3, node_wl := Finite (2 / 5), node_d := Finite (1 / 5),
                                 node_m := Finite 10\<rparr>) None,
            Node ((Node_init 1)\<lparr>node_n := 1, node_wl := Finite (- 1 / 10), node_d := Finite (1 / 2),
                                 node_m := Finite 12\<rparr>) None])))
   = Inr (LowNode ((LowNode_init (Some (replicate 2 \<lparr>edge_move = (), edge_p = 0\<rparr>)))
                     \<lparr>low_n := 4, low_wl := Finite (11 / 40), low_d := Finite (11 / 40),
                      low_m := Finite (21 / 2)\<rparr>)
        [Node ((Node_init 0)\<lparr>node_n := 3, node_wl := Finite (2 / 5), node_d := Finite (1 / 5),
                              node_m := Finite 10\<rparr>) None,
         Node ((Node_init 1)\<lparr>node_n := 1, node_wl := Finite (- 1 / 10), node_d := Finite (1 / 2),
                              node_m := Finite 12\<rparr>) None])"
  by code_simp

text \<open>
  Claim C3 at an incoming Node with an edge and no visited child. The LowNode is a
  tablebase draw with one edge and no child, the Node holds it. \<open>MakeNotTerminal\<close> leaves
  \<open>N = 0\<close> and divides the three sums by it: \<open>W\<close>, \<open>D\<close> and \<open>M\<close> are \<open>0 / 0\<close>, which
  is NaN, not zero. The division is guarded by \<^verbatim>\<open>node->GetNumEdges() > 0\<close>, not by
  \<^verbatim>\<open>n_ > 0\<close>.
\<close>

theorem LowNode_MakeNotTerminal_no_visited_children:
  "LowNode_MakeNotTerminal
     (LowNode (LowNode_MakeTerminal (LowNode_init (Some [\<lparr>edge_move = (), edge_p = 0\<rparr>]))
                 DRAW (Finite 5) Tablebase) [])
     (Node (Node_init 0)
        (Some (LowNode (LowNode_MakeTerminal (LowNode_init (Some [\<lparr>edge_move = (), edge_p = 0\<rparr>]))
                          DRAW (Finite 5) Tablebase) [])))
   = Inr (LowNode ((LowNode_init (Some [\<lparr>edge_move = (), edge_p = 0\<rparr>]))
                     \<lparr>low_n := 0, low_wl := NaN, low_d := NaN, low_m := NaN\<rparr>) [])"
  by code_simp

section \<open>Re-rooting\<close>


lemma ReleaseChildrenExceptOne_loop_not_found:
  assumes "node_to_save = None \<or> (\<exists>j. node_to_save = Some j \<and> (j < i \<or> i + length cs \<le> j))"
  shows "ReleaseChildrenExceptOne_loop node_to_save cs i q = (cs, [], q)"
  using assms
proof (induction cs arbitrary: i)
  case Nil
  then show ?case by simp
next
  case (Cons c cs)
  have "node_to_save \<noteq> Some i" using Cons.prems by auto
  moreover have "node_to_save = None \<or> (\<exists>j. node_to_save = Some j \<and> (j < Suc i \<or> Suc i + length cs \<le> j))"
    using Cons.prems by auto
  ultimately show ?case using Cons.IH [of "Suc i"] by simp
qed


lemma Edges_iter_index:
  "it \<in> set (Edges_iter cs k idx q) \<Longrightarrow> idx \<le> it_current_idx it \<and> it_current_idx it < idx + k"
proof (induction k arbitrary: idx q)
  case 0
  then show ?case by simp
next
  case (Suc k)
  then show ?case by (auto simp: case_prod_beta) force+
qed

lemma find_Edges_iter_None:
  assumes "\<forall>i. idx \<le> i \<and> i < idx + k \<longrightarrow> \<not> P i"
  shows "find (\<lambda>it. P (it_current_idx it)) (Edges_iter cs k idx q) = None"
  using assms Edges_iter_index [of _ cs k idx q] by (auto simp: find_None_iff)


lemma LowNode_ReleaseChildrenExceptOne_not_found:
  assumes "node_to_save = None \<or> (\<exists>j. node_to_save = Some j \<and> length (child this) \<le> j)"
  shows "LowNode_ReleaseChildrenExceptOne this node_to_save q
           = (LowNode (low_data this) [], AddToGcQueue (child this) q)"
proof -
  have "ReleaseChildrenExceptOne_loop node_to_save (child this) 0 q = (child this, [], q)"
    using assms by (intro ReleaseChildrenExceptOne_loop_not_found) auto
  then show ?thesis by (simp add: LowNode_ReleaseChildrenExceptOne_def)
qed






section \<open>Releasing all children\<close>

lemma MakeMove_loop_no_edge:
  assumes "head = Node nd0 (Some l)" and "low_edges (low_data l) = Some es"
    and "\<forall>e \<in> set es. \<not> IsSameMove ch h (edge_move e) move"
  shows "MakeMove_loop ch h head move = Inr (head, None)"
proof -
  have "find (\<lambda>it. IsSameMove ch h (edge_move (es ! it_current_idx it)) move)
             (Edges_iter (child l) (length es) 0 0) = None"
    using assms(3)
    by (intro find_Edges_iter_None [where P = "\<lambda>i. IsSameMove ch h (edge_move (es ! i)) move"])
       simp
  then show ?thesis
    by (simp add: MakeMove_loop_def assms(1,2) Node_Edges_def Node_GetChild_def
        Node_GetNumEdges_def LowNode_GetNumEdges_def)
qed

text \<open>
  Claim C10, as the code has it. \<open>LowNode::ReleaseChildrenExceptOne(node_to_save)\<close> with
  \<open>node_to_save\<close> null or not among the children hands the whole child chain to the
  queue and leaves the child list empty. \<open>MakeMove\<close> takes this path when the move is
  the same as the move of no edge of the head's LowNode; the fallback
  \<open>CreateSingleChildNode\<close> that follows then fails its assert, the head still holding a
  LowNode. On a head without LowNode nothing is released and \<open>CreateSingleChildNode\<close>
  gives the head a LowNode with the one edge and the new head as its only child.
\<close>

theorem ReleaseChildrenExceptOne_nothing_saved:
  "(node_to_save = None \<or> (\<exists>j. node_to_save = Some j \<and> length (child this) \<le> j) \<longrightarrow>
      LowNode_ReleaseChildrenExceptOne this node_to_save q
        = (LowNode (low_data this) [], AddToGcQueue (child this) q))
   \<and> (current_head t = Node nd0 (Some l) \<and> low_edges (low_data l) = Some es
       \<and> move1 = (if IsBlackToMove ch (history t) then Mirror ch move0 else move0)
       \<and> (\<forall>e \<in> set es. \<not> IsSameMove ch (history t) (edge_move e) move1) \<longrightarrow>
        MakeMove_loop ch (history t) (current_head t) move1 = Inr (current_head t, None)
        \<and> Node_ReleaseChildrenExceptOne (current_head t) None q
            = (Node nd0 (Some (LowNode (low_data l) [])), AddToGcQueue (child l) q)
        \<and> Node_GetChild (Node nd0 (Some (LowNode (low_data l) []))) = []
        \<and> Node_CreateSingleChildNode (Node nd0 (Some (LowNode (low_data l) [])))
              (GetModernMove ch (history t) move1) = Inl AssertionFailure
        \<and> NodeTree_MakeMove ch (t, q) move0 = Inl AssertionFailure)
   \<and> (current_head t2 = Node nd2 None
       \<and> move2 = GetModernMove ch (history t2)
                    (if IsBlackToMove ch (history t2) then Mirror ch move0 else move0) \<longrightarrow>
        NodeTree_MakeMove ch (t2, q) move0 =
          Inr (\<lparr>above = \<lparr>frame_node = nd2,
                           frame_low = LowNode_AddParent
                                         (LowNode_init (Some [\<lparr>edge_move = move2, edge_p = 0\<rparr>]))
                                         (node_n_in_flight nd2),
                           frame_before = [], frame_after = []\<rparr> # above t2,
                current_head = Node (Node_init 0) None,
                history = Append ch (history t2) move2,
                moves = moves t2 @ [move2]\<rparr>, q))"
proof (intro conjI impI)
  assume "node_to_save = None \<or> (\<exists>j. node_to_save = Some j \<and> length (child this) \<le> j)"
  then show "LowNode_ReleaseChildrenExceptOne this node_to_save q
        = (LowNode (low_data this) [], AddToGcQueue (child this) q)"
    by (rule LowNode_ReleaseChildrenExceptOne_not_found)
next
  assume a: "current_head t = Node nd0 (Some l) \<and> low_edges (low_data l) = Some es
       \<and> move1 = (if IsBlackToMove ch (history t) then Mirror ch move0 else move0)
       \<and> (\<forall>e \<in> set es. \<not> IsSameMove ch (history t) (edge_move e) move1)"
  then have h: "current_head t = Node nd0 (Some l)" and e: "low_edges (low_data l) = Some es"
    and m: "move1 = (if IsBlackToMove ch (history t) then Mirror ch move0 else move0)"
    and n: "\<forall>e \<in> set es. \<not> IsSameMove ch (history t) (edge_move e) move1"
    by blast+
  show lp: "MakeMove_loop ch (history t) (current_head t) move1 = Inr (current_head t, None)"
    by (rule MakeMove_loop_no_edge [OF h e n])
  show rel: "Node_ReleaseChildrenExceptOne (current_head t) None q
            = (Node nd0 (Some (LowNode (low_data l) [])), AddToGcQueue (child l) q)"
    by (simp add: Node_ReleaseChildrenExceptOne_def h LowNode_ReleaseChildrenExceptOne_not_found)
  show gc: "Node_GetChild (Node nd0 (Some (LowNode (low_data l) []))) = []"
    by (simp add: Node_GetChild_def)
  show cr: "Node_CreateSingleChildNode (Node nd0 (Some (LowNode (low_data l) [])))
              (GetModernMove ch (history t) move1) = Inl AssertionFailure"
    by (simp add: Node_CreateSingleChildNode_def)
  show "NodeTree_MakeMove ch (t, q) move0 = Inl AssertionFailure"
    using lp rel gc cr
    by (simp add: NodeTree_MakeMove_def Let_def flip: m)
next
  assume a: "current_head t2 = Node nd2 None
       \<and> move2 = GetModernMove ch (history t2)
                    (if IsBlackToMove ch (history t2) then Mirror ch move0 else move0)"
  then show "NodeTree_MakeMove ch (t2, q) move0 =
          Inr (\<lparr>above = \<lparr>frame_node = nd2,
                           frame_low = LowNode_AddParent
                                         (LowNode_init (Some [\<lparr>edge_move = move2, edge_p = 0\<rparr>]))
                                         (node_n_in_flight nd2),
                           frame_before = [], frame_after = []\<rparr> # above t2,
                current_head = Node (Node_init 0) None,
                history = Append ch (history t2) move2,
                moves = moves t2 @ [move2]\<rparr>, q)"
    by (simp add: NodeTree_MakeMove_def MakeMove_loop_def Node_ReleaseChildrenExceptOne_def
        Node_GetChild_def Node_CreateSingleChildNode_def Let_def)
qed

text \<open>
  In the example tree nothing is saved for the null pointer, and no edge has the move
  \<open>13\<close>: \<open>MakeMove\<close> stops at the assert. On a lone root without LowNode the move
  \<open>13\<close> creates the single child.
\<close>

theorem ReleaseChildrenExceptOne_nothing_saved_witness:
  "LowNode_ReleaseChildrenExceptOne (LowNode example_low [example_child_a, example_child_b]) None []
     = (LowNode example_low [], [[example_child_a, example_child_b]])
   \<and> NodeTree_MakeMove example_chess (example_tree, []) 13 = Inl AssertionFailure
   \<and> NodeTree_MakeMove example_chess
        (\<lparr>above = [], current_head = Node (Node_init 0) None, history = [], moves = []\<rparr>, []) 13
     = Inr (\<lparr>above = [\<lparr>frame_node = Node_init 0,
                         frame_low = (LowNode_init (Some [\<lparr>edge_move = 13, edge_p = 0\<rparr>]))
                                       \<lparr>low_num_parents := 1\<rparr>,
                         frame_before = [], frame_after = []\<rparr>],
              current_head = Node (Node_init 0) None, history = [13], moves = [13]\<rparr>, [])"
proof -
  have h1: "(None :: nat option) = None
      \<or> (\<exists>j. (None :: nat option) = Some j
              \<and> length (child (LowNode example_low [example_child_a, example_child_b])) \<le> j)"
    by simp
  have h2: "current_head example_tree
        = Node ((Node_init 0)\<lparr>node_n := 9\<rparr>)
            (Some (LowNode example_low [example_child_a, example_child_b]))
      \<and> low_edges (low_data (LowNode example_low [example_child_a, example_child_b]))
          = Some example_edges
      \<and> (13 :: nat) = (if IsBlackToMove example_chess (history example_tree)
                        then Mirror example_chess 13 else 13)
      \<and> (\<forall>e \<in> set example_edges.
            \<not> IsSameMove example_chess (history example_tree) (edge_move e) 13)"
    by (simp add: LowNode_init_def)
  have h3: "current_head \<lparr>above = [], current_head = Node (Node_init 0) None,
                          history = [] :: nat list, moves = [] :: nat list\<rparr>
        = Node (Node_init 0) None
      \<and> (13 :: nat) = GetModernMove example_chess
            (history \<lparr>above = [], current_head = Node (Node_init 0) None,
                      history = [] :: nat list, moves = [] :: nat list\<rparr>)
            (if IsBlackToMove example_chess
                  (history \<lparr>above = [], current_head = Node (Node_init 0) None,
                            history = [] :: nat list, moves = [] :: nat list\<rparr>)
             then Mirror example_chess 13 else 13)"
    by simp
  note inst = ReleaseChildrenExceptOne_nothing_saved
    [of None "LowNode example_low [example_child_a, example_child_b]" "[]"
        example_tree "(Node_init 0)\<lparr>node_n := 9\<rparr>"
        "LowNode example_low [example_child_a, example_child_b]" example_edges
        13 example_chess 13
        "\<lparr>above = [], current_head = Node (Node_init 0) None, history = [], moves = []\<rparr>"
        "Node_init 0" 13]
  from inst h1 have a: "LowNode_ReleaseChildrenExceptOne
        (LowNode example_low [example_child_a, example_child_b]) None []
      = (LowNode example_low [], [[example_child_a, example_child_b]])"
    by (simp add: AddToGcQueue_def)
  from inst h2 have b: "NodeTree_MakeMove example_chess (example_tree, []) 13 = Inl AssertionFailure"
    by blast
  from inst h3 have c: "NodeTree_MakeMove example_chess
        (\<lparr>above = [], current_head = Node (Node_init 0) None, history = [], moves = []\<rparr>, []) 13
     = Inr (\<lparr>above = [\<lparr>frame_node = Node_init 0,
                         frame_low = (LowNode_init (Some [\<lparr>edge_move = 13, edge_p = 0\<rparr>]))
                                       \<lparr>low_num_parents := 1\<rparr>,
                         frame_before = [], frame_after = []\<rparr>],
              current_head = Node (Node_init 0) None, history = [13], moves = [13]\<rparr>, [])"
    by (simp add: LowNode_AddParent_def LowNode_init_def Node_init_def)
  from a b c show ?thesis by blast
qed

text \<open>
  The claim as written fails for a move that matches an edge without a materialized
  child. In the example tree the children are on the edges \<open>0\<close> and \<open>1\<close> and the move
  \<open>12\<close> is that of edge \<open>2\<close>: the loop spawns the child and returns a pointer to it,
  \<open>ReleaseChildrenExceptOne\<close> saves it, and the head keeps its LowNode with this one
  child and becomes the parent of the new head; \<open>CreateSingleChildNode\<close> is not called.
\<close>

theorem MakeMove_spawns_child_counterexample:
  "edge_move (example_edges ! 2) = 12
   \<and> map (\<lambda>c. node_index (node_data c)) [example_child_a, example_child_b] = [0, 1]
   \<and> MakeMove_loop example_chess [] (current_head example_tree) 12
       = Inr (Node ((Node_init 0)\<lparr>node_n := 9\<rparr>)
                (Some (LowNode example_low
                   [example_child_a, example_child_b, Node (Node_init 2) None])),
              Some 2)
   \<and> Node_ReleaseChildrenExceptOne
        (Node ((Node_init 0)\<lparr>node_n := 9\<rparr>)
           (Some (LowNode example_low
              [example_child_a, example_child_b, Node (Node_init 2) None])))
        (Some 2) []
       = (Node ((Node_init 0)\<lparr>node_n := 9\<rparr>)
            (Some (LowNode example_low [Node (Node_init 2) None])),
          [[example_child_a, example_child_b]])
   \<and> NodeTree_MakeMove example_chess (example_tree, []) 12
       = Inr (\<lparr>above = [\<lparr>frame_node = (Node_init 0)\<lparr>node_n := 9\<rparr>, frame_low = example_low,
                           frame_before = [], frame_after = []\<rparr>],
                current_head = Node (Node_init 2) None, history = [12], moves = [12]\<rparr>,
              [[example_child_a, example_child_b]])"
  by code_simp

end
